theory Spec2Isabelle
  imports Main "HOL-Library.AList"
begin

unbundle bit_operations_syntax

section \<open>Entity model (model.py)\<close>

text \<open>
  Python integers are unbounded and are modelled by \<open>int\<close>; Python strings by
  \<open>string\<close>. Every dataclass is a record whose fields keep the source's names behind a
  short prefix that tells the records apart (\<open>it_\<close> input terminal, \<open>ot_\<close> output
  terminal, \<open>fu_\<close> feature unit, and so on). A field of type \<open>Optional[T]\<close> is a
  \<open>T option\<close>.
\<close>

datatype UACVersion = UAC_1_0 | UAC_2_0 | UAC_3_0 | UNKNOWN

datatype SyncType = SYNC_NONE | SYNC_ASYNC | SYNC_ADAPTIVE | SYNC_SYNC

datatype UsageType = DATA | FEEDBACK | IMPLICIT_FEEDBACK

record AudioControlHeader =
  ach_uac_version :: UACVersion
  ach_bcd_adc :: int
  ach_total_length :: int
  ach_in_collection :: int
  ach_interface_numbers :: "int list"
  ach_category :: int
  ach_controls :: int

record InputTerminal =
  it_terminal_id :: int
  it_terminal_type :: int
  it_assoc_terminal :: int
  it_nr_channels :: int
  it_channel_config :: int
  it_channel_names :: string
  it_terminal_name :: string
  it_clock_source_id :: int
  it_controls :: int

record OutputTerminal =
  ot_terminal_id :: int
  ot_terminal_type :: int
  ot_assoc_terminal :: int
  ot_source_id :: int
  ot_terminal_name :: string
  ot_clock_source_id :: int
  ot_controls :: int

record FeatureUnit =
  fu_unit_id :: int
  fu_source_id :: int
  fu_nr_channels :: int
  fu_controls :: "int list"
  fu_unit_name :: string

record MixerUnit =
  mu_unit_id :: int
  mu_nr_in_pins :: int
  mu_source_ids :: "int list"
  mu_nr_channels :: int
  mu_channel_config :: int
  mu_channel_names :: string
  mu_unit_name :: string

record SelectorUnit =
  su_unit_id :: int
  su_nr_in_pins :: int
  su_source_ids :: "int list"
  su_selector_name :: string

record ProcessingUnit =
  pu_unit_id :: int
  pu_process_type :: int
  pu_nr_in_pins :: int
  pu_source_ids :: "int list"
  pu_nr_channels :: int
  pu_channel_config :: int
  pu_channel_names :: string
  pu_controls :: int
  pu_unit_name :: string

record ExtensionUnit =
  xu_unit_id :: int
  xu_extension_code :: int
  xu_nr_in_pins :: int
  xu_source_ids :: "int list"
  xu_nr_channels :: int
  xu_channel_config :: int
  xu_channel_names :: string
  xu_controls :: int
  xu_unit_name :: string

record ClockSource =
  cs_clock_id :: int
  cs_attributes :: int
  cs_controls :: int
  cs_assoc_terminal :: int
  cs_clock_source_name :: string

record ClockSelector =
  csel_clock_id :: int
  csel_nr_in_pins :: int
  csel_clock_pin_ids :: "int list"
  csel_controls :: int
  csel_clock_selector_name :: string

record ClockMultiplier =
  cm_clock_id :: int
  cm_clock_source_id :: int
  cm_controls :: int
  cm_clock_multiplier_name :: string

record AudioControlInterface =
  header :: "AudioControlHeader option"
  input_terminals :: "InputTerminal list"
  output_terminals :: "OutputTerminal list"
  feature_units :: "FeatureUnit list"
  mixer_units :: "MixerUnit list"
  selector_units :: "SelectorUnit list"
  processing_units :: "ProcessingUnit list"
  extension_units :: "ExtensionUnit list"
  clock_sources :: "ClockSource list"
  clock_selectors :: "ClockSelector list"
  clock_multipliers :: "ClockMultiplier list"

record DeviceDescriptor =
  vendor_id :: int
  product_id :: int
  bcd_device :: int
  manufacturer :: string
  product :: string
  serial_number :: string
  device_class :: int
  device_subclass :: int
  device_protocol :: int
  max_packet_size_0 :: int
  num_configurations :: int
  usb_version :: string

record EndpointDescriptor =
  address :: int
  direction :: string
  transfer_type :: string
  sync_type :: SyncType
  usage_type :: UsageType
  max_packet_size :: int
  interval :: int
  refresh :: int
  synch_address :: int
  lock_delay_units :: int
  lock_delay :: int
  max_packets_only :: bool

record InterfaceDescriptor =
  interface_number :: int
  alternate_setting :: int
  num_endpoints :: int
  interface_class :: int
  interface_subclass :: int
  interface_protocol :: int
  interface_name :: string
  endpoints :: "EndpointDescriptor list"

record ConfigurationDescriptor =
  config_value :: int
  num_interfaces :: int
  config_name :: string
  attributes :: int
  max_power_ma :: int
  interfaces :: "InterfaceDescriptor list"

record FormatTypeDescriptor =
  format_type :: int
  fmt_nr_channels :: int
  subframe_size :: int
  bit_resolution :: int
  sample_frequencies :: "int list"
  freq_min :: int
  freq_max :: int

text \<open>
  The parser stores the channel count of a UAC 2.0 AS General descriptor in an attribute
  \<open>_nr_channels\<close> that it adds to the object, and later asks \<open>hasattr\<close> for it:
  the field \<open>asi_nr_channels\<close> is \<open>None\<close> while the attribute does not exist.
\<close>

record AudioStreamingInterface =
  asi_interface_number :: int
  asi_alternate_setting :: int
  terminal_link :: int
  delay :: int
  format_tag :: int
  asi_controls :: int
  asi_clock_source_id :: int
  bm_formats :: int
  asi_format :: "FormatTypeDescriptor option"
  asi_endpoint :: "EndpointDescriptor option"
  asi_nr_channels :: "int option"

record AlternateSetting =
  alt_interface_number :: int
  alt_alternate_setting :: int
  streaming_interface :: "AudioStreamingInterface option"
  alt_format :: "FormatTypeDescriptor option"
  alt_endpoint :: "EndpointDescriptor option"

record USBAudioDevice =
  device :: DeviceDescriptor
  configuration :: "ConfigurationDescriptor option"
  audio_control :: "AudioControlInterface option"
  streaming_interfaces :: "AudioStreamingInterface list"
  alternate_settings :: "AlternateSetting list"

text \<open>The \<open>is_usb_streaming\<close> properties of the two terminal classes.\<close>

definition it_is_usb_streaming :: "InputTerminal \<Rightarrow> bool" where
  "it_is_usb_streaming t = (it_terminal_type t = 0x0101)"

definition ot_is_usb_streaming :: "OutputTerminal \<Rightarrow> bool" where
  "ot_is_usb_streaming t = (ot_terminal_type t = 0x0101)"

text \<open>The default values of the dataclasses.\<close>

definition new_AudioControlHeader :: AudioControlHeader where
  "new_AudioControlHeader =
     \<lparr>ach_uac_version = UNKNOWN, ach_bcd_adc = 0, ach_total_length = 0,
      ach_in_collection = 0, ach_interface_numbers = [], ach_category = 0,
      ach_controls = 0\<rparr>"

definition new_InputTerminal :: InputTerminal where
  "new_InputTerminal =
     \<lparr>it_terminal_id = 0, it_terminal_type = 0, it_assoc_terminal = 0, it_nr_channels = 0,
      it_channel_config = 0, it_channel_names = [], it_terminal_name = [],
      it_clock_source_id = 0, it_controls = 0\<rparr>"

definition new_OutputTerminal :: OutputTerminal where
  "new_OutputTerminal =
     \<lparr>ot_terminal_id = 0, ot_terminal_type = 0, ot_assoc_terminal = 0, ot_source_id = 0,
      ot_terminal_name = [], ot_clock_source_id = 0, ot_controls = 0\<rparr>"

definition new_FeatureUnit :: FeatureUnit where
  "new_FeatureUnit =
     \<lparr>fu_unit_id = 0, fu_source_id = 0, fu_nr_channels = 0, fu_controls = [],
      fu_unit_name = []\<rparr>"

definition new_MixerUnit :: MixerUnit where
  "new_MixerUnit =
     \<lparr>mu_unit_id = 0, mu_nr_in_pins = 0, mu_source_ids = [], mu_nr_channels = 0,
      mu_channel_config = 0, mu_channel_names = [], mu_unit_name = []\<rparr>"

definition new_SelectorUnit :: SelectorUnit where
  "new_SelectorUnit =
     \<lparr>su_unit_id = 0, su_nr_in_pins = 0, su_source_ids = [], su_selector_name = []\<rparr>"

definition new_ProcessingUnit :: ProcessingUnit where
  "new_ProcessingUnit =
     \<lparr>pu_unit_id = 0, pu_process_type = 0, pu_nr_in_pins = 0, pu_source_ids = [],
      pu_nr_channels = 0, pu_channel_config = 0, pu_channel_names = [], pu_controls = 0,
      pu_unit_name = []\<rparr>"

definition new_ExtensionUnit :: ExtensionUnit where
  "new_ExtensionUnit =
     \<lparr>xu_unit_id = 0, xu_extension_code = 0, xu_nr_in_pins = 0, xu_source_ids = [],
      xu_nr_channels = 0, xu_channel_config = 0, xu_channel_names = [], xu_controls = 0,
      xu_unit_name = []\<rparr>"

definition new_ClockSource :: ClockSource where
  "new_ClockSource =
     \<lparr>cs_clock_id = 0, cs_attributes = 0, cs_controls = 0, cs_assoc_terminal = 0,
      cs_clock_source_name = []\<rparr>"

definition new_ClockSelector :: ClockSelector where
  "new_ClockSelector =
     \<lparr>csel_clock_id = 0, csel_nr_in_pins = 0, csel_clock_pin_ids = [], csel_controls = 0,
      csel_clock_selector_name = []\<rparr>"

definition new_ClockMultiplier :: ClockMultiplier where
  "new_ClockMultiplier =
     \<lparr>cm_clock_id = 0, cm_clock_source_id = 0, cm_controls = 0,
      cm_clock_multiplier_name = []\<rparr>"

definition new_DeviceDescriptor :: DeviceDescriptor where
  "new_DeviceDescriptor =
     \<lparr>vendor_id = 0, product_id = 0, bcd_device = 0, manufacturer = [], product = [],
      serial_number = [], device_class = 0, device_subclass = 0, device_protocol = 0,
      max_packet_size_0 = 0, num_configurations = 0, usb_version = []\<rparr>"

definition new_EndpointDescriptor :: EndpointDescriptor where
  "new_EndpointDescriptor =
     \<lparr>address = 0, direction = [], transfer_type = [], sync_type = SYNC_NONE,
      usage_type = DATA, max_packet_size = 0, interval = 0, refresh = 0, synch_address = 0,
      lock_delay_units = 0, lock_delay = 0, max_packets_only = False\<rparr>"

definition new_InterfaceDescriptor :: InterfaceDescriptor where
  "new_InterfaceDescriptor =
     \<lparr>interface_number = 0, alternate_setting = 0, num_endpoints = 0, interface_class = 0,
      interface_subclass = 0, interface_protocol = 0, interface_name = [], endpoints = []\<rparr>"

definition new_ConfigurationDescriptor :: ConfigurationDescriptor where
  "new_ConfigurationDescriptor =
     \<lparr>config_value = 0, num_interfaces = 0, config_name = [], attributes = 0,
      max_power_ma = 0, interfaces = []\<rparr>"

definition new_FormatTypeDescriptor :: FormatTypeDescriptor where
  "new_FormatTypeDescriptor =
     \<lparr>format_type = 0, fmt_nr_channels = 0, subframe_size = 0, bit_resolution = 0,
      sample_frequencies = [], freq_min = 0, freq_max = 0\<rparr>"

definition new_AudioStreamingInterface :: AudioStreamingInterface where
  "new_AudioStreamingInterface =
     \<lparr>asi_interface_number = 0, asi_alternate_setting = 0, terminal_link = 0, delay = 0,
      format_tag = 0, asi_controls = 0, asi_clock_source_id = 0, bm_formats = 0,
      asi_format = None, asi_endpoint = None, asi_nr_channels = None\<rparr>"

definition new_AlternateSetting :: AlternateSetting where
  "new_AlternateSetting =
     \<lparr>alt_interface_number = 0, alt_alternate_setting = 0, streaming_interface = None,
      alt_format = None, alt_endpoint = None\<rparr>"

definition new_USBAudioDevice :: USBAudioDevice where
  "new_USBAudioDevice =
     \<lparr>device = new_DeviceDescriptor, configuration = None, audio_control = None,
      streaming_interfaces = [], alternate_settings = []\<rparr>"

definition new_AudioControlInterface :: AudioControlInterface where
  "new_AudioControlInterface =
     \<lparr>header = None, input_terminals = [], output_terminals = [], feature_units = [],
      mixer_units = [], selector_units = [], processing_units = [], extension_units = [],
      clock_sources = [], clock_selectors = [], clock_multipliers = []\<rparr>"


section \<open>Topology graph (topology.py)\<close>

text \<open>
  A \<open>TopologyNode\<close> carries its id, its type, its channel count and the USB-streaming
  flag. The fields that only hold display text or a back reference (\<open>name\<close>,
  \<open>description\<close>, \<open>controls\<close>, \<open>entity\<close>, and the \<open>description\<close> of a signal path)
  play no part in the construction of nodes, edges and paths and are left out.

  \<open>TopologyGraph.nodes\<close> is a Python \<open>dict\<close>: an association list with distinct
  keys in insertion order, written with \<open>AList.update\<close> (an assignment to an existing key
  keeps its position and replaces its value) and read with \<open>map_of\<close>.
\<close>

datatype NodeType =
    INPUT_TERMINAL | OUTPUT_TERMINAL | FEATURE_UNIT | MIXER_UNIT | SELECTOR_UNIT
  | PROCESSING_UNIT | EXTENSION_UNIT | CLOCK_SOURCE | CLOCK_SELECTOR | CLOCK_MULTIPLIER

record TopologyNode =
  node_id :: int
  node_type :: NodeType
  channels :: int
  is_usb_streaming :: bool

record TopologyEdge =
  source_id :: int
  target_id :: int
  edge_channels :: int
  is_clock :: bool

record SignalPath =
  path_nodes :: "TopologyNode list"

record TopologyGraph =
  nodes :: "(int \<times> TopologyNode) list"
  edges :: "TopologyEdge list"
  signal_paths :: "SignalPath list"
  g_input_terminals :: "TopologyNode list"
  g_output_terminals :: "TopologyNode list"
  units :: "TopologyNode list"
  clock_entities :: "TopologyNode list"
  usb_input_terminals :: "TopologyNode list"
  usb_output_terminals :: "TopologyNode list"

definition new_TopologyGraph :: TopologyGraph where
  "new_TopologyGraph =
     \<lparr>nodes = [], edges = [], signal_paths = [], g_input_terminals = [],
      g_output_terminals = [], units = [], clock_entities = [],
      usb_input_terminals = [], usb_output_terminals = []\<rparr>"

text \<open>\<open>node_id in graph.nodes\<close>\<close>

definition has_node :: "TopologyGraph \<Rightarrow> int \<Rightarrow> bool" where
  "has_node graph nid = (map_of (nodes graph) nid \<noteq> None)"

text \<open>\<open>TopologyGraph.get_sources\<close>: the nodes feeding the given node over non-clock edges.\<close>

definition get_sources :: "TopologyGraph \<Rightarrow> int \<Rightarrow> TopologyNode list" where
  "get_sources graph nid =
     concat (map (\<lambda>edge.
        if target_id edge = nid \<and> \<not> is_clock edge then
          (case map_of (nodes graph) (source_id edge) of
             Some n \<Rightarrow> [n] | None \<Rightarrow> [])
        else []) (edges graph))"

subsection \<open>Nodes\<close>

definition add_input_terminal :: "InputTerminal \<Rightarrow> TopologyGraph \<Rightarrow> TopologyGraph" where
  "add_input_terminal terminal graph =
     (let node = \<lparr>node_id = it_terminal_id terminal, node_type = INPUT_TERMINAL,
                  channels = it_nr_channels terminal,
                  is_usb_streaming = it_is_usb_streaming terminal\<rparr>
      in graph\<lparr>nodes := AList.update (it_terminal_id terminal) node (nodes graph),
               g_input_terminals := g_input_terminals graph @ [node],
               usb_input_terminals :=
                 (if it_is_usb_streaming terminal then usb_input_terminals graph @ [node]
                  else usb_input_terminals graph)\<rparr>)"

definition add_output_terminal :: "OutputTerminal \<Rightarrow> TopologyGraph \<Rightarrow> TopologyGraph" where
  "add_output_terminal terminal graph =
     (let node = \<lparr>node_id = ot_terminal_id terminal, node_type = OUTPUT_TERMINAL,
                  channels = 0, is_usb_streaming = ot_is_usb_streaming terminal\<rparr>
      in graph\<lparr>nodes := AList.update (ot_terminal_id terminal) node (nodes graph),
               g_output_terminals := g_output_terminals graph @ [node],
               usb_output_terminals :=
                 (if ot_is_usb_streaming terminal then usb_output_terminals graph @ [node]
                  else usb_output_terminals graph)\<rparr>)"

text \<open>The five unit loops and the three clock loops all store one node and append it
  to \<open>units\<close> or to \<open>clock_entities\<close>.\<close>

definition add_unit_node :: "int \<Rightarrow> NodeType \<Rightarrow> int \<Rightarrow> TopologyGraph \<Rightarrow> TopologyGraph" where
  "add_unit_node uid ty ch graph =
     (let node = \<lparr>node_id = uid, node_type = ty, channels = ch, is_usb_streaming = False\<rparr>
      in graph\<lparr>nodes := AList.update uid node (nodes graph),
               units := units graph @ [node]\<rparr>)"

definition add_clock_node :: "int \<Rightarrow> NodeType \<Rightarrow> TopologyGraph \<Rightarrow> TopologyGraph" where
  "add_clock_node cid ty graph =
     (let node = \<lparr>node_id = cid, node_type = ty, channels = 0, is_usb_streaming = False\<rparr>
      in graph\<lparr>nodes := AList.update cid node (nodes graph),
               clock_entities := clock_entities graph @ [node]\<rparr>)"

definition add_input_terminals :: "TopologyGraph \<Rightarrow> AudioControlInterface \<Rightarrow> TopologyGraph" where
  "add_input_terminals graph ac = fold add_input_terminal (input_terminals ac) graph"

definition add_output_terminals :: "TopologyGraph \<Rightarrow> AudioControlInterface \<Rightarrow> TopologyGraph" where
  "add_output_terminals graph ac = fold add_output_terminal (output_terminals ac) graph"

definition add_feature_units :: "TopologyGraph \<Rightarrow> AudioControlInterface \<Rightarrow> TopologyGraph" where
  "add_feature_units graph ac =
     fold (\<lambda>unit. add_unit_node (fu_unit_id unit) FEATURE_UNIT (fu_nr_channels unit))
       (feature_units ac) graph"

definition add_mixer_units :: "TopologyGraph \<Rightarrow> AudioControlInterface \<Rightarrow> TopologyGraph" where
  "add_mixer_units graph ac =
     fold (\<lambda>unit. add_unit_node (mu_unit_id unit) MIXER_UNIT (mu_nr_channels unit))
       (mixer_units ac) graph"

definition add_selector_units :: "TopologyGraph \<Rightarrow> AudioControlInterface \<Rightarrow> TopologyGraph" where
  "add_selector_units graph ac =
     fold (\<lambda>unit. add_unit_node (su_unit_id unit) SELECTOR_UNIT 0) (selector_units ac) graph"

definition add_processing_units :: "TopologyGraph \<Rightarrow> AudioControlInterface \<Rightarrow> TopologyGraph" where
  "add_processing_units graph ac =
     fold (\<lambda>unit. add_unit_node (pu_unit_id unit) PROCESSING_UNIT (pu_nr_channels unit))
       (processing_units ac) graph"

definition add_extension_units :: "TopologyGraph \<Rightarrow> AudioControlInterface \<Rightarrow> TopologyGraph" where
  "add_extension_units graph ac =
     fold (\<lambda>unit. add_unit_node (xu_unit_id unit) EXTENSION_UNIT (xu_nr_channels unit))
       (extension_units ac) graph"

definition add_clock_entities :: "TopologyGraph \<Rightarrow> AudioControlInterface \<Rightarrow> TopologyGraph" where
  "add_clock_entities graph ac =
     fold (\<lambda>clock. add_clock_node (cm_clock_id clock) CLOCK_MULTIPLIER) (clock_multipliers ac)
       (fold (\<lambda>clock. add_clock_node (csel_clock_id clock) CLOCK_SELECTOR) (clock_selectors ac)
          (fold (\<lambda>clock. add_clock_node (cs_clock_id clock) CLOCK_SOURCE) (clock_sources ac)
             graph))"

subsection \<open>Edges\<close>

text \<open>
  \<open>_build_edges\<close> runs eight loops that append to \<open>graph.edges\<close> and only read
  \<open>graph.nodes\<close>. Each loop is the list of edges it appends. A scalar reference is
  guarded by its truth value (non-zero) and by membership in \<open>graph.nodes\<close>; an entry
  of a list-valued reference by membership alone.
\<close>

definition node_channels :: "TopologyGraph \<Rightarrow> int \<Rightarrow> int" where
  "node_channels graph nid =
     (case map_of (nodes graph) nid of Some source_node \<Rightarrow> channels source_node | None \<Rightarrow> 0)"

definition signal_edge :: "TopologyGraph \<Rightarrow> int \<Rightarrow> int \<Rightarrow> TopologyEdge" where
  "signal_edge graph src tgt =
     \<lparr>source_id = src, target_id = tgt, edge_channels = node_channels graph src,
      is_clock = False\<rparr>"

definition clock_edge :: "int \<Rightarrow> int \<Rightarrow> TopologyEdge" where
  "clock_edge src tgt =
     \<lparr>source_id = src, target_id = tgt, edge_channels = 0, is_clock = True\<rparr>"

definition scalar_edges :: "TopologyGraph \<Rightarrow> int \<Rightarrow> int \<Rightarrow> TopologyEdge list" where
  "scalar_edges graph src tgt =
     (if src \<noteq> 0 \<and> has_node graph src then [signal_edge graph src tgt] else [])"

definition list_edges :: "TopologyGraph \<Rightarrow> int list \<Rightarrow> int \<Rightarrow> TopologyEdge list" where
  "list_edges graph srcs tgt =
     map (\<lambda>src. signal_edge graph src tgt) (filter (has_node graph) srcs)"

definition output_terminal_edges :: "TopologyGraph \<Rightarrow> AudioControlInterface \<Rightarrow> TopologyEdge list" where
  "output_terminal_edges graph ac =
     concat (map (\<lambda>terminal. scalar_edges graph (ot_source_id terminal) (ot_terminal_id terminal))
       (output_terminals ac))"

definition feature_unit_edges :: "TopologyGraph \<Rightarrow> AudioControlInterface \<Rightarrow> TopologyEdge list" where
  "feature_unit_edges graph ac =
     concat (map (\<lambda>unit. scalar_edges graph (fu_source_id unit) (fu_unit_id unit))
       (feature_units ac))"

definition mixer_unit_edges :: "TopologyGraph \<Rightarrow> AudioControlInterface \<Rightarrow> TopologyEdge list" where
  "mixer_unit_edges graph ac =
     concat (map (\<lambda>unit. list_edges graph (mu_source_ids unit) (mu_unit_id unit))
       (mixer_units ac))"

definition selector_unit_edges :: "TopologyGraph \<Rightarrow> AudioControlInterface \<Rightarrow> TopologyEdge list" where
  "selector_unit_edges graph ac =
     concat (map (\<lambda>unit. list_edges graph (su_source_ids unit) (su_unit_id unit))
       (selector_units ac))"

definition processing_unit_edges :: "TopologyGraph \<Rightarrow> AudioControlInterface \<Rightarrow> TopologyEdge list" where
  "processing_unit_edges graph ac =
     concat (map (\<lambda>unit. list_edges graph (pu_source_ids unit) (pu_unit_id unit))
       (processing_units ac))"

definition extension_unit_edges :: "TopologyGraph \<Rightarrow> AudioControlInterface \<Rightarrow> TopologyEdge list" where
  "extension_unit_edges graph ac =
     concat (map (\<lambda>unit. list_edges graph (xu_source_ids unit) (xu_unit_id unit))
       (extension_units ac))"

definition clock_selector_edges :: "TopologyGraph \<Rightarrow> AudioControlInterface \<Rightarrow> TopologyEdge list" where
  "clock_selector_edges graph ac =
     concat (map (\<lambda>clock.
        map (\<lambda>src. clock_edge src (csel_clock_id clock))
          (filter (has_node graph) (csel_clock_pin_ids clock)))
       (clock_selectors ac))"

definition clock_multiplier_edges :: "TopologyGraph \<Rightarrow> AudioControlInterface \<Rightarrow> TopologyEdge list" where
  "clock_multiplier_edges graph ac =
     concat (map (\<lambda>clock.
        if cm_clock_source_id clock \<noteq> 0 \<and> has_node graph (cm_clock_source_id clock)
        then [clock_edge (cm_clock_source_id clock) (cm_clock_id clock)] else [])
       (clock_multipliers ac))"

definition build_edges :: "TopologyGraph \<Rightarrow> AudioControlInterface \<Rightarrow> TopologyGraph" where
  "build_edges graph ac =
     graph\<lparr>edges := edges graph
        @ output_terminal_edges graph ac
        @ feature_unit_edges graph ac
        @ mixer_unit_edges graph ac
        @ selector_unit_edges graph ac
        @ processing_unit_edges graph ac
        @ extension_unit_edges graph ac
        @ clock_selector_edges graph ac
        @ clock_multiplier_edges graph ac\<rparr>"

subsection \<open>Signal paths\<close>

text \<open>
  \<open>_trace_back\<close> recurses into every source of a node that is not yet on the path.
  Each call that recurses has added a key of \<open>graph.nodes\<close> to \<open>visited\<close>, so the
  number of keys outside \<open>visited\<close> decreases: the recursion ends on every graph,
  cyclic or not.
\<close>

function trace_back :: "TopologyGraph \<Rightarrow> int \<Rightarrow> int list \<Rightarrow> int set \<Rightarrow> int list list" where
  "trace_back graph nid current_path visited =
     (if nid \<in> visited then []
      else (case map_of (nodes graph) nid of
              None \<Rightarrow> []
            | Some node \<Rightarrow>
                if node_type node = INPUT_TERMINAL then [nid # current_path]
                else if get_sources graph nid = [] then []
                else concat (map (\<lambda>source.
                       trace_back graph (node_id source) (nid # current_path)
                         (visited \<union> {nid}))
                     (get_sources graph nid))))"
  by pat_completeness auto

termination trace_back
proof (relation "measure (\<lambda>(graph, nid, current_path, visited).
                   card (fst ` set (nodes graph) - visited))")
  show "wf (measure (\<lambda>(graph, nid, current_path, visited).
              card (fst ` set (nodes graph) - visited)))"
    by simp
next
  fix graph :: TopologyGraph and nid :: int and current_path :: "int list"
    and visited :: "int set" and node :: TopologyNode and source :: TopologyNode
  assume nv: "nid \<notin> visited" and m: "map_of (nodes graph) nid = Some node"
  from m have "nid \<in> fst ` set (nodes graph)"
    by (metis map_of_SomeD fst_conv image_eqI)
  with nv have "fst ` set (nodes graph) - (visited \<union> {nid})
                  \<subset> fst ` set (nodes graph) - visited"
    by auto
  then have "card (fst ` set (nodes graph) - (visited \<union> {nid}))
               < card (fst ` set (nodes graph) - visited)"
    by (intro psubset_card_mono) auto
  then show "((graph, node_id source, nid # current_path, visited \<union> {nid}),
              graph, nid, current_path, visited)
       \<in> measure (\<lambda>(graph, nid, current_path, visited).
                     card (fst ` set (nodes graph) - visited))"
    by simp
qed

declare trace_back.simps [simp del]

text \<open>
  The same function with a bound on the depth of the recursion: \<open>None\<close> when a call
  would go deeper than the bound allows.
\<close>

fun sequence_paths :: "int list list option list \<Rightarrow> int list list option" where
  "sequence_paths [] = Some []"
| "sequence_paths (None # rs) = None"
| "sequence_paths (Some ps # rs) =
     (case sequence_paths rs of None \<Rightarrow> None | Some qs \<Rightarrow> Some (ps @ qs))"

fun trace_back_depth ::
  "nat \<Rightarrow> TopologyGraph \<Rightarrow> int \<Rightarrow> int list \<Rightarrow> int set \<Rightarrow> int list list option" where
  "trace_back_depth 0 graph nid current_path visited = None"
| "trace_back_depth (Suc d) graph nid current_path visited =
     (if nid \<in> visited then Some []
      else (case map_of (nodes graph) nid of
              None \<Rightarrow> Some []
            | Some node \<Rightarrow>
                if node_type node = INPUT_TERMINAL then Some [nid # current_path]
                else if get_sources graph nid = [] then Some []
                else sequence_paths (map (\<lambda>source.
                       trace_back_depth d graph (node_id source) (nid # current_path)
                         (visited \<union> {nid}))
                     (get_sources graph nid))))"

text \<open>
  \<open>_find_signal_paths\<close>: one trace per output terminal node; the ids of a found path
  that are keys of \<open>graph.nodes\<close> are replaced by their nodes, and an empty node list
  is dropped.
\<close>

definition path_of_ids :: "TopologyGraph \<Rightarrow> int list \<Rightarrow> SignalPath list" where
  "path_of_ids graph node_ids =
     (let ns = concat (map (\<lambda>nid. case map_of (nodes graph) nid of
                                     Some n \<Rightarrow> [n] | None \<Rightarrow> []) node_ids)
      in if ns = [] then [] else [\<lparr>path_nodes = ns\<rparr>])"

definition find_signal_paths :: "TopologyGraph \<Rightarrow> SignalPath list" where
  "find_signal_paths graph =
     concat (map (\<lambda>output_terminal.
        concat (map (path_of_ids graph) (trace_back graph (node_id output_terminal) [] {})))
       (g_output_terminals graph))"

definition build_nodes :: "AudioControlInterface \<Rightarrow> TopologyGraph" where
  "build_nodes ac =
     add_clock_entities
       (add_extension_units
         (add_processing_units
           (add_selector_units
             (add_mixer_units
               (add_feature_units
                 (add_output_terminals
                   (add_input_terminals new_TopologyGraph ac) ac) ac) ac) ac) ac) ac) ac"

definition build_topology :: "USBAudioDevice \<Rightarrow> TopologyGraph" where
  "build_topology dev =
     (case audio_control dev of
        None \<Rightarrow> new_TopologyGraph
      | Some ac \<Rightarrow>
          (let graph = build_edges (build_nodes ac) ac
           in graph\<lparr>signal_paths := find_signal_paths graph\<rparr>))"

text \<open>
  Every node is stored under its own id: the invariant of \<open>graph.nodes\<close> that the
  node loops establish.
\<close>

definition nodes_keyed :: "TopologyGraph \<Rightarrow> bool" where
  "nodes_keyed graph = (\<forall>k n. map_of (nodes graph) k = Some n \<longrightarrow> node_id n = k)"



section \<open>Text primitives of the parser (parser.py)\<close>

text \<open>
  A \<open>string\<close> is a list of 8-bit characters, read as the code points 0 to 255. The
  character classes below are Python's on that range: \<open>str.isspace\<close> (also the
  class \<open>\s\<close> of \<open>re\<close> and what \<open>strip\<close> and \<open>split\<close> remove), the decimal
  digits \<open>\d\<close>, the class \<open>[0-9a-fA-F]\<close>, the word characters \<open>\w\<close> that decide a
  word boundary \<open>\b\<close>, and the line boundaries of \<open>str.splitlines\<close>.
\<close>

definition is_space :: "char \<Rightarrow> bool" where
  "is_space c = (c \<in> set [CHR 0x09, CHR 0x0A, CHR 0x0B, CHR 0x0C, CHR 0x0D, CHR 0x1C,
                            CHR 0x1D, CHR 0x1E, CHR 0x1F, CHR 0x20, CHR 0x85, CHR 0xA0])"

definition is_digit :: "char \<Rightarrow> bool" where
  "is_digit c = (c \<in> set ''0123456789'')"

definition is_hexdigit :: "char \<Rightarrow> bool" where
  "is_hexdigit c = (c \<in> set ''0123456789abcdefABCDEF'')"

text \<open>Beyond ASCII (\<open>digit7\<close> is the top bit of the character) the word
  characters are the letters and numeric characters of Latin-1.\<close>

definition is_word :: "char \<Rightarrow> bool" where
  "is_word c =
     (if digit7 c then
        (let n = (of_char c :: nat)
         in n \<in> {170, 178, 179, 181, 185, 186, 188, 189, 190}
            \<or> (192 \<le> n \<and> n \<noteq> 215 \<and> n \<noteq> 247))
      else c \<in> set ''abcdefghijklmnopqrstuvwxyzABCDEFGHIJKLMNOPQRSTUVWXYZ0123456789_'')"

definition is_linebreak :: "char \<Rightarrow> bool" where
  "is_linebreak c = (c \<in> set [CHR 0x0A, CHR 0x0B, CHR 0x0C, CHR 0x0D, CHR 0x1C, CHR 0x1D,
                                CHR 0x1E, CHR 0x85])"

text \<open>Lower case of an ASCII letter, for the one pattern that ignores case.\<close>

definition lower :: "char \<Rightarrow> char" where
  "lower c =
     (case map_of (zip ''ABCDEFGHIJKLMNOPQRSTUVWXYZ'' ''abcdefghijklmnopqrstuvwxyz'') c of
        Some d \<Rightarrow> d
      | None \<Rightarrow> c)"

definition lstrip :: "string \<Rightarrow> string" where
  "lstrip s = dropWhile is_space s"

definition strip :: "string \<Rightarrow> string" where
  "strip s = rev (dropWhile is_space (rev (dropWhile is_space s)))"

definition startswith :: "string \<Rightarrow> string \<Rightarrow> bool" where
  "startswith s p = (take (length p) s = p)"

text \<open>\<open>str.split()\<close> without argument: the maximal runs of non-space characters.\<close>

fun split_ws :: "string \<Rightarrow> string \<Rightarrow> string list" where
  "split_ws cur [] = (if cur = [] then [] else [cur])"
| "split_ws cur (c # cs) =
     (if is_space c then (if cur = [] then split_ws [] cs else cur # split_ws [] cs)
      else split_ws (cur @ [c]) cs)"

definition split :: "string \<Rightarrow> string list" where
  "split s = split_ws [] s"

text \<open>\<open>s.split(sep)[-1]\<close> for a one-character separator: what follows the last
  separator, the whole string when there is none.\<close>

definition after_last :: "char \<Rightarrow> string \<Rightarrow> string" where
  "after_last sep s = rev (takeWhile (\<lambda>c. c \<noteq> sep) (rev s))"

text \<open>\<open>str.splitlines()\<close>: a carriage return followed by a line feed is one
  boundary, and a boundary at the very end opens no further line.\<close>

fun splitlines_from :: "string \<Rightarrow> string \<Rightarrow> string list" where
  "splitlines_from cur [] = (if cur = [] then [] else [cur])"
| "splitlines_from cur [c] = (if is_linebreak c then [cur] else [cur @ [c]])"
| "splitlines_from cur (c # d # cs) =
     (if c = CHR 0x0D \<and> d = CHR 0x0A then cur # splitlines_from [] cs
      else if is_linebreak c then cur # splitlines_from [] (d # cs)
      else splitlines_from (cur @ [c]) (d # cs))"

definition splitlines :: "string \<Rightarrow> string list" where
  "splitlines s = splitlines_from [] s"

text \<open>\<open>int(s)\<close> and \<open>int(s, 16)\<close> on a non-empty run of digits.\<close>

definition digit_value :: "char \<Rightarrow> int" where
  "digit_value c = int (length (takeWhile (\<lambda>d. d \<noteq> lower c) ''0123456789abcdef''))"

definition int_of_decimal :: "string \<Rightarrow> int" where
  "int_of_decimal s = foldl (\<lambda>a c. 10 * a + digit_value c) 0 s"

definition int_of_hex :: "string \<Rightarrow> int" where
  "int_of_hex s = foldl (\<lambda>a c. 16 * a + digit_value c) 0 s"

subsection \<open>The regular expressions\<close>

text \<open>
  Every pattern of the parser is a sequence of literals, greedy repetitions of one
  character class and word boundaries. \<open>match_here\<close> is the backtracking matcher of
  \<open>re\<close> on such a sequence: a repetition first takes the longest run and gives
  characters back one at a time while the rest of the pattern fails. It returns the text
  matched by each element of the pattern, so that a capture group is read off by its
  position. \<open>re_match\<close> matches at the start of the text, \<open>re_search\<close> at the
  leftmost position where a match exists.
\<close>

datatype cls = Space | Digit | Hex | AnyChar

datatype atom = Lit string | LitI string | Rep cls nat | WordB | Eos

fun in_cls :: "cls \<Rightarrow> char \<Rightarrow> bool" where
  "in_cls Space c = is_space c"
| "in_cls Digit c = is_digit c"
| "in_cls Hex c = is_hexdigit c"
| "in_cls AnyChar c = (c \<noteq> CHR 0x0A)"

definition word_before :: "char option \<Rightarrow> bool" where
  "word_before prev = (case prev of None \<Rightarrow> False | Some c \<Rightarrow> is_word c)"

definition word_after :: "string \<Rightarrow> bool" where
  "word_after s = (case s of [] \<Rightarrow> False | c # _ \<Rightarrow> is_word c)"

definition prev_after :: "char option \<Rightarrow> string \<Rightarrow> char option" where
  "prev_after prev consumed = (if consumed = [] then prev else Some (last consumed))"

function match_here :: "atom list \<Rightarrow> char option \<Rightarrow> string \<Rightarrow> string list option"
  and try_rep :: "cls \<Rightarrow> nat \<Rightarrow> atom list \<Rightarrow> char option \<Rightarrow> string \<Rightarrow> nat \<Rightarrow> string list option"
where
  "match_here [] prev s = Some []"
| "match_here (Lit l # as) prev s =
     (if take (length l) s = l
      then map_option (Cons l) (match_here as (prev_after prev l) (drop (length l) s))
      else None)"
| "match_here (LitI l # as) prev s =
     (if length l \<le> length s \<and> map lower (take (length l) s) = map lower l
      then map_option (Cons (take (length l) s))
             (match_here as (prev_after prev (take (length l) s)) (drop (length l) s))
      else None)"
| "match_here (WordB # as) prev s =
     (if word_before prev \<noteq> word_after s then map_option (Cons []) (match_here as prev s)
      else None)"
| "match_here (Eos # as) prev s =
     (if s = [] then map_option (Cons []) (match_here as prev s) else None)"
| "match_here (Rep c n # as) prev s = try_rep c n as prev s (length (takeWhile (in_cls c) s))"
| "try_rep c n as prev s k =
     (if k < n then None
      else (case match_here as (prev_after prev (take k s)) (drop k s) of
              Some r \<Rightarrow> Some (take k s # r)
            | None \<Rightarrow> (case k of 0 \<Rightarrow> None | Suc j \<Rightarrow> try_rep c n as prev s j)))"
  by pat_completeness auto
termination
  by (relation "measures
        [\<lambda>x. case x of Inl (as, prev, s) \<Rightarrow> 2 * length as
                          | Inr (c, n, as, prev, s, k) \<Rightarrow> 2 * length as + 1,
         \<lambda>x. case x of Inl (as, prev, s) \<Rightarrow> 0 | Inr (c, n, as, prev, s, k) \<Rightarrow> k]")
     auto

fun search_from :: "atom list \<Rightarrow> char option \<Rightarrow> string \<Rightarrow> string list option" where
  "search_from as prev [] = match_here as prev []"
| "search_from as prev (c # cs) =
     (case match_here as prev (c # cs) of
        Some r \<Rightarrow> Some r
      | None \<Rightarrow> search_from as (Some c) cs)"

definition re_search :: "atom list \<Rightarrow> string \<Rightarrow> string list option" where
  "re_search as s = search_from as None s"

definition re_match :: "atom list \<Rightarrow> string \<Rightarrow> string list option" where
  "re_match as s = match_here as None s"

subsection \<open>Field decoders\<close>

text \<open>\<open>_parse_hex_value\<close>: the digits after a literal \<open>0x\<close>, else the second
  word of the text when it is made of hexadecimal digits only, else zero.\<close>

definition parse_hex_value :: "string \<Rightarrow> int" where
  "parse_hex_value text =
     (let text = strip text
      in case re_search [Lit ''0x'', Rep Hex 1] text of
           Some m \<Rightarrow> int_of_hex (m ! 1)
         | None \<Rightarrow>
             (let parts = split text
              in if length parts \<ge> 2 then
                   (let value_part = parts ! 1
                    in if re_match [Rep Hex 1, Eos] value_part \<noteq> None
                       then int_of_hex value_part else 0)
                 else 0))"

text \<open>\<open>_parse_bcd_value\<close>: \<open>(major << 8) | minor\<close> of the first
  \<open>digits.digits\<close>, else zero.\<close>

definition parse_bcd_value :: "string \<Rightarrow> int" where
  "parse_bcd_value text =
     (case re_search [Rep Digit 1, Lit ''.'', Rep Digit 1] text of
        Some m \<Rightarrow> push_bit 8 (int_of_decimal (m ! 0)) OR int_of_decimal (m ! 2)
      | None \<Rightarrow> 0)"

text \<open>\<open>_parse_int_value\<close>: the first run of digits between word boundaries, else
  zero.\<close>

definition parse_int_value :: "string \<Rightarrow> int" where
  "parse_int_value text =
     (case re_search [WordB, Rep Digit 1, WordB] text of
        Some m \<Rightarrow> int_of_decimal (m ! 1)
      | None \<Rightarrow> 0)"

text \<open>\<open>_parse_field\<close>: what follows the field name (matched without regard to
  case) and white space, else the empty string.\<close>

definition parse_field :: "string \<Rightarrow> string \<Rightarrow> string" where
  "parse_field line field_name =
     (case re_search [LitI field_name, Rep Space 1, Rep AnyChar 1] line of
        Some m \<Rightarrow> strip (m ! 2)
      | None \<Rightarrow> [])"

text \<open>The pattern \<open>name\s+\d+\s+(.+)\<close> of the string-index fields: the label after
  the index, stripped, when the line has one.\<close>

definition index_label :: "string \<Rightarrow> string \<Rightarrow> string option" where
  "index_label name content =
     map_option (\<lambda>m. strip (m ! 4))
       (re_search [Lit name, Rep Space 1, Rep Digit 1, Rep Space 1, Rep AnyChar 1] content)"

text \<open>The pattern \<open>0x[0-9a-fA-F]+\s+(.+)\<close> of the vendor and product lines.\<close>

definition hex_label :: "string \<Rightarrow> string option" where
  "hex_label content =
     map_option (\<lambda>m. strip (m ! 3))
       (re_search [Lit ''0x'', Rep Hex 1, Rep Space 1, Rep AnyChar 1] content)"

text \<open>\<open>re.match(name\(\s*\d+\), content)\<close> of the indexed fields, with the
  bracket that the field uses.\<close>

definition indexed_field :: "string \<Rightarrow> string \<Rightarrow> string \<Rightarrow> string \<Rightarrow> bool" where
  "indexed_field name opening closing content =
     (re_match [Lit (name @ opening), Rep Space 0, Rep Digit 1, Lit closing] content \<noteq> None)"


section \<open>The descriptor parser (parser.py)\<close>

subsection \<open>Lines and the cursor\<close>

record LsusbLine =
  raw :: string
  line_number :: nat
  indent :: nat
  content :: string

definition new_LsusbLine :: "string \<Rightarrow> nat \<Rightarrow> LsusbLine" where
  "new_LsusbLine raw_line n =
     \<lparr>raw = raw_line, line_number = n,
      indent = length raw_line - length (lstrip raw_line),
      content = strip raw_line\<rparr>"

text \<open>\<open>_tokenize\<close>: the lines that are not blank, numbered from 1 in the text.\<close>

definition tokenize :: "string \<Rightarrow> LsusbLine list" where
  "tokenize text =
     map (\<lambda>(i, line). new_LsusbLine line i)
       (filter (\<lambda>(i, line). strip line \<noteq> [])
          (zip [1 ..< Suc (length (splitlines text))] (splitlines text)))"

text \<open>
  The parser object holds the list \<open>lines\<close> and a cursor \<open>pos\<close> that only moves
  forward. Its state is modelled by the lines from the cursor on,
  \<open>lines[pos:]\<close>: \<open>_current()\<close> is the head of that list (\<open>None\<close> when it is empty)
  and \<open>_advance()\<close> drops the head. A function that the source calls with the cursor on
  a section's header line takes that line and the lines after it as two arguments, and
  returns the lines from the cursor on when it is done.

  The one statement of the parser that can raise is \<open>split()[0]\<close> on the value of
  \<open>bcdUSB\<close>; its \<open>IndexError\<close> is a value of the model.
\<close>

datatype error = IndexError

datatype 'a step = Continue 'a | Break

text \<open>The loop \<open>while self._current() and self._current().indent > start_indent\<close>
  whose body decodes the current line and advances: the loop of every leaf section.\<close>

fun body_loop ::
  "(string \<Rightarrow> 'a \<Rightarrow> 'a) \<Rightarrow> nat \<Rightarrow> 'a \<Rightarrow> LsusbLine list \<Rightarrow> 'a \<times> LsusbLine list" where
  "body_loop decode start_indent x [] = (x, [])"
| "body_loop decode start_indent x (l # ls) =
     (if indent l > start_indent
      then body_loop decode start_indent (decode (content l) x) ls
      else (x, l # ls))"


subsection \<open>Device descriptor\<close>

definition device_line :: "string \<Rightarrow> DeviceDescriptor \<Rightarrow> error + DeviceDescriptor step" where
  "device_line text desc =
     (if startswith text ''bcdUSB'' then
        (case split (parse_field text ''bcdUSB'') of
           [] \<Rightarrow> Inl IndexError
         | w # _ \<Rightarrow> Inr (Continue (desc\<lparr>usb_version := w\<rparr>)))
      else if startswith text ''bDeviceClass'' then
        Inr (Continue (desc\<lparr>device_class := parse_int_value text\<rparr>))
      else if startswith text ''bDeviceSubClass'' then
        Inr (Continue (desc\<lparr>device_subclass := parse_int_value text\<rparr>))
      else if startswith text ''bDeviceProtocol'' then
        Inr (Continue (desc\<lparr>device_protocol := parse_int_value text\<rparr>))
      else if startswith text ''bMaxPacketSize0'' then
        Inr (Continue (desc\<lparr>max_packet_size_0 := parse_int_value text\<rparr>))
      else if startswith text ''idVendor'' then
        (let desc = desc\<lparr>vendor_id := parse_hex_value text\<rparr>
         in Inr (Continue (case hex_label text of
                             Some name \<Rightarrow> desc\<lparr>manufacturer := name\<rparr>
                           | None \<Rightarrow> desc)))
      else if startswith text ''idProduct'' then
        (let desc = desc\<lparr>product_id := parse_hex_value text\<rparr>
         in Inr (Continue (case hex_label text of
                             Some name \<Rightarrow> desc\<lparr>product := name\<rparr>
                           | None \<Rightarrow> desc)))
      else if startswith text ''bcdDevice'' then
        Inr (Continue (desc\<lparr>bcd_device := parse_hex_value text\<rparr>))
      else if startswith text ''iManufacturer'' then
        Inr (Continue (case index_label ''iManufacturer'' text of
                         Some name \<Rightarrow> desc\<lparr>manufacturer := name\<rparr>
                       | None \<Rightarrow> desc))
      else if startswith text ''iProduct'' then
        Inr (Continue (case index_label ''iProduct'' text of
                         Some name \<Rightarrow> desc\<lparr>product := name\<rparr>
                       | None \<Rightarrow> desc))
      else if startswith text ''iSerial'' then
        Inr (Continue (case index_label ''iSerial'' text of
                         Some name \<Rightarrow> desc\<lparr>serial_number := name\<rparr>
                       | None \<Rightarrow> desc))
      else if startswith text ''bNumConfigurations'' then
        Inr (Continue (desc\<lparr>num_configurations := parse_int_value text\<rparr>))
      else if startswith text ''Configuration Descriptor:'' then
        Inr Break
      else Inr (Continue desc))"

fun device_loop ::
  "nat \<Rightarrow> DeviceDescriptor \<Rightarrow> LsusbLine list \<Rightarrow> error + (DeviceDescriptor \<times> LsusbLine list)" where
  "device_loop start_indent desc [] = Inr (desc, [])"
| "device_loop start_indent desc (l # ls) =
     (if indent l > start_indent then
        (case device_line (content l) desc of
           Inl e \<Rightarrow> Inl e
         | Inr Break \<Rightarrow> Inr (desc, l # ls)
         | Inr (Continue desc') \<Rightarrow> device_loop start_indent desc' ls)
      else Inr (desc, l # ls))"

definition parse_device_descriptor ::
  "LsusbLine \<Rightarrow> LsusbLine list \<Rightarrow> error + (DeviceDescriptor \<times> LsusbLine list)" where
  "parse_device_descriptor hdr ls = device_loop (indent hdr) new_DeviceDescriptor ls"

subsection \<open>Endpoint descriptor\<close>

definition audio_endpoint_line :: "string \<Rightarrow> EndpointDescriptor \<Rightarrow> EndpointDescriptor" where
  "audio_endpoint_line text ep =
     (if startswith text ''bmAttributes'' then
        ep\<lparr>max_packets_only := (parse_hex_value text AND 0x80 \<noteq> 0)\<rparr>
      else if startswith text ''bLockDelayUnits'' then
        ep\<lparr>lock_delay_units := parse_int_value text\<rparr>
      else if startswith text ''wLockDelay'' then
        ep\<lparr>lock_delay := parse_int_value text\<rparr>
      else ep)"

definition parse_audio_endpoint_descriptor ::
  "EndpointDescriptor \<Rightarrow> LsusbLine \<Rightarrow> LsusbLine list \<Rightarrow> EndpointDescriptor \<times> LsusbLine list" where
  "parse_audio_endpoint_descriptor ep hdr ls = body_loop audio_endpoint_line (indent hdr) ep ls"

text \<open>The three tables are indexed by two bits of the attributes, a value from 0 to 3.\<close>

definition transfer_types :: "string list" where
  "transfer_types = [''Control'', ''Isochronous'', ''Bulk'', ''Interrupt'']"

definition sync_types :: "SyncType list" where
  "sync_types = [SYNC_NONE, SYNC_ASYNC, SYNC_ADAPTIVE, SYNC_SYNC]"

definition usage_types :: "UsageType list" where
  "usage_types = [DATA, FEEDBACK, IMPLICIT_FEEDBACK, DATA]"

text \<open>The fields of an endpoint body that come before the nested header in the
  source's chain of tests: \<open>None\<close> when the line is none of them.\<close>

definition endpoint_field :: "string \<Rightarrow> EndpointDescriptor \<Rightarrow> EndpointDescriptor option" where
  "endpoint_field text ep =
     (if startswith text ''bEndpointAddress'' then
        (let a = parse_hex_value text
         in Some (ep\<lparr>address := a, direction := (if a AND 0x80 \<noteq> 0 then ''IN'' else ''OUT'')\<rparr>))
      else if startswith text ''bmAttributes'' then
        (let attrs = parse_int_value text;
             ep = ep\<lparr>transfer_type := transfer_types ! nat (attrs AND 0x03)\<rparr>
         in Some (if transfer_type ep = ''Isochronous''
                  then ep\<lparr>sync_type := sync_types ! nat (drop_bit 2 attrs AND 0x03),
                          usage_type := usage_types ! nat (drop_bit 4 attrs AND 0x03)\<rparr>
                  else ep))
      else if startswith text ''wMaxPacketSize'' then
        Some (case re_search [Lit ''0x'', Rep Hex 1] text of
                Some m \<Rightarrow> ep\<lparr>max_packet_size := int_of_hex (m ! 1) AND 0x7FF\<rparr>
              | None \<Rightarrow> ep)
      else if startswith text ''bInterval'' then
        Some (ep\<lparr>interval := parse_int_value text\<rparr>)
      else if startswith text ''bRefresh'' then
        Some (ep\<lparr>refresh := parse_int_value text\<rparr>)
      else if startswith text ''bSynchAddress'' then
        Some (ep\<lparr>synch_address := parse_hex_value text\<rparr>)
      else None)"

lemma body_loop_length:
  "length (snd (body_loop decode start_indent x ls)) \<le> length ls"
  by (induction ls arbitrary: x) (auto intro: le_SucI)

lemma parse_audio_endpoint_descriptor_length:
  "length (snd (parse_audio_endpoint_descriptor ep hdr ls)) \<le> length ls"
  unfolding parse_audio_endpoint_descriptor_def by (rule body_loop_length)

function endpoint_loop ::
  "nat \<Rightarrow> EndpointDescriptor \<Rightarrow> LsusbLine list \<Rightarrow> EndpointDescriptor \<times> LsusbLine list" where
  "endpoint_loop start_indent ep [] = (ep, [])"
| "endpoint_loop start_indent ep (l # ls) =
     (if indent l > start_indent then
        (case endpoint_field (content l) ep of
           Some ep' \<Rightarrow> endpoint_loop start_indent ep' ls
         | None \<Rightarrow>
             if startswith (content l) ''AudioControl Endpoint Descriptor:'' then
               (case parse_audio_endpoint_descriptor ep l ls of
                  (ep', ls') \<Rightarrow> endpoint_loop start_indent ep' ls')
             else endpoint_loop start_indent ep ls)
      else (ep, l # ls))"
  by pat_completeness auto
termination
  by (relation "measure (\<lambda>(start_indent, ep, ls). length ls)")
     (auto simp: case_prod_unfold less_Suc_eq_le parse_audio_endpoint_descriptor_length)

definition parse_endpoint_descriptor ::
  "LsusbLine \<Rightarrow> LsusbLine list \<Rightarrow> EndpointDescriptor \<times> LsusbLine list" where
  "parse_endpoint_descriptor hdr ls = endpoint_loop (indent hdr) new_EndpointDescriptor ls"

subsection \<open>AudioControl interface descriptors\<close>

definition AC_HEADER :: int where "AC_HEADER = 0x01"
definition AC_INPUT_TERMINAL :: int where "AC_INPUT_TERMINAL = 0x02"
definition AC_OUTPUT_TERMINAL :: int where "AC_OUTPUT_TERMINAL = 0x03"
definition AC_MIXER_UNIT :: int where "AC_MIXER_UNIT = 0x04"
definition AC_SELECTOR_UNIT :: int where "AC_SELECTOR_UNIT = 0x05"
definition AC_FEATURE_UNIT :: int where "AC_FEATURE_UNIT = 0x06"
definition AC_PROCESSING_UNIT :: int where "AC_PROCESSING_UNIT = 0x07"
definition AC_EXTENSION_UNIT :: int where "AC_EXTENSION_UNIT = 0x08"
definition AC_CLOCK_SOURCE :: int where "AC_CLOCK_SOURCE = 0x0A"
definition AC_CLOCK_SELECTOR :: int where "AC_CLOCK_SELECTOR = 0x0B"
definition AC_CLOCK_MULTIPLIER :: int where "AC_CLOCK_MULTIPLIER = 0x0C"
definition AS_GENERAL :: int where "AS_GENERAL = 0x01"
definition AS_FORMAT_TYPE :: int where "AS_FORMAT_TYPE = 0x02"

text \<open>The scan for \<open>bDescriptorSubtype\<close>: it stops on that line without consuming
  it, or at the end of the section with subtype 0.\<close>

fun scan_subtype :: "nat \<Rightarrow> LsusbLine list \<Rightarrow> int \<times> LsusbLine list" where
  "scan_subtype start_indent [] = (0, [])"
| "scan_subtype start_indent (l # ls) =
     (if indent l > start_indent then
        (if startswith (content l) ''bDescriptorSubtype''
         then (parse_int_value (content l), l # ls)
         else scan_subtype start_indent ls)
      else (0, l # ls))"

text \<open>The loop that skips the body of a descriptor of unknown subtype.\<close>

definition skip_block :: "nat \<Rightarrow> LsusbLine list \<Rightarrow> LsusbLine list" where
  "skip_block start_indent ls = snd (body_loop (\<lambda>text u. u) start_indent () ls)"

definition ac_header_line :: "string \<Rightarrow> AudioControlHeader \<Rightarrow> AudioControlHeader" where
  "ac_header_line text h =
     (if startswith text ''bcdADC'' then
        (let bcd = parse_bcd_value text
         in h\<lparr>ach_bcd_adc := bcd,
               ach_uac_version := (if bcd \<ge> 0x0200 then UAC_2_0 else UAC_1_0)\<rparr>)
      else if startswith text ''wTotalLength'' then
        h\<lparr>ach_total_length := parse_int_value text\<rparr>
      else if startswith text ''bInCollection'' then
        h\<lparr>ach_in_collection := parse_int_value text\<rparr>
      else if startswith text ''baInterfaceNr'' then
        (case re_search [Lit ''baInterfaceNr('', Rep Digit 1, Lit '')'', Rep Space 1, Rep Digit 1]
                text of
           Some m \<Rightarrow> h\<lparr>ach_interface_numbers :=
                         ach_interface_numbers h @ [int_of_decimal (m ! 4)]\<rparr>
         | None \<Rightarrow> h)
      else if startswith text ''bCategory'' then
        h\<lparr>ach_category := parse_hex_value text\<rparr>
      else if startswith text ''bmControls'' then
        h\<lparr>ach_controls := parse_hex_value text\<rparr>
      else h)"

definition parse_ac_header ::
  "AudioControlInterface \<Rightarrow> nat \<Rightarrow> LsusbLine list \<Rightarrow> AudioControlInterface \<times> LsusbLine list" where
  "parse_ac_header ac start_indent ls =
     (case body_loop ac_header_line start_indent new_AudioControlHeader ls of
        (h, ls') \<Rightarrow> (ac\<lparr>header := Some h\<rparr>, ls'))"

definition input_terminal_line :: "string \<Rightarrow> InputTerminal \<Rightarrow> InputTerminal" where
  "input_terminal_line text terminal =
     (if startswith text ''bTerminalID'' then
        terminal\<lparr>it_terminal_id := parse_int_value text\<rparr>
      else if startswith text ''wTerminalType'' then
        terminal\<lparr>it_terminal_type := parse_hex_value text\<rparr>
      else if startswith text ''bAssocTerminal'' then
        terminal\<lparr>it_assoc_terminal := parse_int_value text\<rparr>
      else if startswith text ''bNrChannels'' then
        terminal\<lparr>it_nr_channels := parse_int_value text\<rparr>
      else if startswith text ''wChannelConfig'' then
        terminal\<lparr>it_channel_config := parse_hex_value text\<rparr>
      else if startswith text ''iChannelNames'' then
        (case index_label ''iChannelNames'' text of
           Some name \<Rightarrow> terminal\<lparr>it_channel_names := name\<rparr> | None \<Rightarrow> terminal)
      else if startswith text ''iTerminal'' then
        (case index_label ''iTerminal'' text of
           Some name \<Rightarrow> terminal\<lparr>it_terminal_name := name\<rparr> | None \<Rightarrow> terminal)
      else if startswith text ''bCSourceID'' then
        terminal\<lparr>it_clock_source_id := parse_int_value text\<rparr>
      else if startswith text ''bmControls'' then
        terminal\<lparr>it_controls := parse_hex_value text\<rparr>
      else terminal)"

definition parse_input_terminal ::
  "AudioControlInterface \<Rightarrow> nat \<Rightarrow> LsusbLine list \<Rightarrow> AudioControlInterface \<times> LsusbLine list" where
  "parse_input_terminal ac start_indent ls =
     (case body_loop input_terminal_line start_indent new_InputTerminal ls of
        (terminal, ls') \<Rightarrow> (ac\<lparr>input_terminals := input_terminals ac @ [terminal]\<rparr>, ls'))"

definition output_terminal_line :: "string \<Rightarrow> OutputTerminal \<Rightarrow> OutputTerminal" where
  "output_terminal_line text terminal =
     (if startswith text ''bTerminalID'' then
        terminal\<lparr>ot_terminal_id := parse_int_value text\<rparr>
      else if startswith text ''wTerminalType'' then
        terminal\<lparr>ot_terminal_type := parse_hex_value text\<rparr>
      else if startswith text ''bAssocTerminal'' then
        terminal\<lparr>ot_assoc_terminal := parse_int_value text\<rparr>
      else if startswith text ''bSourceID'' then
        terminal\<lparr>ot_source_id := parse_int_value text\<rparr>
      else if startswith text ''iTerminal'' then
        (case index_label ''iTerminal'' text of
           Some name \<Rightarrow> terminal\<lparr>ot_terminal_name := name\<rparr> | None \<Rightarrow> terminal)
      else if startswith text ''bCSourceID'' then
        terminal\<lparr>ot_clock_source_id := parse_int_value text\<rparr>
      else if startswith text ''bmControls'' then
        terminal\<lparr>ot_controls := parse_hex_value text\<rparr>
      else terminal)"

definition parse_output_terminal ::
  "AudioControlInterface \<Rightarrow> nat \<Rightarrow> LsusbLine list \<Rightarrow> AudioControlInterface \<times> LsusbLine list" where
  "parse_output_terminal ac start_indent ls =
     (case body_loop output_terminal_line start_indent new_OutputTerminal ls of
        (terminal, ls') \<Rightarrow> (ac\<lparr>output_terminals := output_terminals ac @ [terminal]\<rparr>, ls'))"

definition feature_unit_line :: "string \<Rightarrow> FeatureUnit \<Rightarrow> FeatureUnit" where
  "feature_unit_line text unit =
     (if startswith text ''bUnitID'' then
        unit\<lparr>fu_unit_id := parse_int_value text\<rparr>
      else if startswith text ''bSourceID'' then
        unit\<lparr>fu_source_id := parse_int_value text\<rparr>
      else if startswith text ''bControlSize'' then
        unit
      else if indexed_field ''bmaControls'' ''('' '')'' text then
        unit\<lparr>fu_controls := fu_controls unit @ [parse_hex_value text]\<rparr>
      else if startswith text ''iFeature'' then
        (case index_label ''iFeature'' text of
           Some name \<Rightarrow> unit\<lparr>fu_unit_name := name\<rparr> | None \<Rightarrow> unit)
      else unit)"

definition parse_feature_unit ::
  "AudioControlInterface \<Rightarrow> nat \<Rightarrow> LsusbLine list \<Rightarrow> AudioControlInterface \<times> LsusbLine list" where
  "parse_feature_unit ac start_indent ls =
     (case body_loop feature_unit_line start_indent new_FeatureUnit ls of
        (unit, ls') \<Rightarrow> (ac\<lparr>feature_units := feature_units ac @ [unit]\<rparr>, ls'))"

definition mixer_unit_line :: "string \<Rightarrow> MixerUnit \<Rightarrow> MixerUnit" where
  "mixer_unit_line text unit =
     (if startswith text ''bUnitID'' then
        unit\<lparr>mu_unit_id := parse_int_value text\<rparr>
      else if startswith text ''bNrInPins'' then
        unit\<lparr>mu_nr_in_pins := parse_int_value text\<rparr>
      else if indexed_field ''baSourceID'' ''('' '')'' text then
        unit\<lparr>mu_source_ids :=
               mu_source_ids unit @ [parse_int_value (after_last (CHR '')'') text)]\<rparr>
      else if startswith text ''bNrChannels'' then
        unit\<lparr>mu_nr_channels := parse_int_value text\<rparr>
      else if startswith text ''wChannelConfig'' then
        unit\<lparr>mu_channel_config := parse_hex_value text\<rparr>
      else if startswith text ''iChannelNames'' then
        (case index_label ''iChannelNames'' text of
           Some name \<Rightarrow> unit\<lparr>mu_channel_names := name\<rparr> | None \<Rightarrow> unit)
      else if startswith text ''iMixer'' then
        (case index_label ''iMixer'' text of
           Some name \<Rightarrow> unit\<lparr>mu_unit_name := name\<rparr> | None \<Rightarrow> unit)
      else unit)"

definition parse_mixer_unit ::
  "AudioControlInterface \<Rightarrow> nat \<Rightarrow> LsusbLine list \<Rightarrow> AudioControlInterface \<times> LsusbLine list" where
  "parse_mixer_unit ac start_indent ls =
     (case body_loop mixer_unit_line start_indent new_MixerUnit ls of
        (unit, ls') \<Rightarrow> (ac\<lparr>mixer_units := mixer_units ac @ [unit]\<rparr>, ls'))"

definition selector_unit_line :: "string \<Rightarrow> SelectorUnit \<Rightarrow> SelectorUnit" where
  "selector_unit_line text unit =
     (if startswith text ''bUnitID'' then
        unit\<lparr>su_unit_id := parse_int_value text\<rparr>
      else if startswith text ''bNrInPins'' then
        unit\<lparr>su_nr_in_pins := parse_int_value text\<rparr>
      else if indexed_field ''baSourceID'' ''('' '')'' text then
        unit\<lparr>su_source_ids :=
               su_source_ids unit @ [parse_int_value (after_last (CHR '')'') text)]\<rparr>
      else if startswith text ''iSelector'' then
        (case index_label ''iSelector'' text of
           Some name \<Rightarrow> unit\<lparr>su_selector_name := name\<rparr> | None \<Rightarrow> unit)
      else unit)"

definition parse_selector_unit ::
  "AudioControlInterface \<Rightarrow> nat \<Rightarrow> LsusbLine list \<Rightarrow> AudioControlInterface \<times> LsusbLine list" where
  "parse_selector_unit ac start_indent ls =
     (case body_loop selector_unit_line start_indent new_SelectorUnit ls of
        (unit, ls') \<Rightarrow> (ac\<lparr>selector_units := selector_units ac @ [unit]\<rparr>, ls'))"

definition processing_unit_line :: "string \<Rightarrow> ProcessingUnit \<Rightarrow> ProcessingUnit" where
  "processing_unit_line text unit =
     (if startswith text ''bUnitID'' then
        unit\<lparr>pu_unit_id := parse_int_value text\<rparr>
      else if startswith text ''wProcessType'' then
        unit\<lparr>pu_process_type := parse_hex_value text\<rparr>
      else if startswith text ''bNrInPins'' then
        unit\<lparr>pu_nr_in_pins := parse_int_value text\<rparr>
      else if indexed_field ''baSourceID'' ''('' '')'' text then
        unit\<lparr>pu_source_ids :=
               pu_source_ids unit @ [parse_int_value (after_last (CHR '')'') text)]\<rparr>
      else if startswith text ''bNrChannels'' then
        unit\<lparr>pu_nr_channels := parse_int_value text\<rparr>
      else if startswith text ''wChannelConfig'' then
        unit\<lparr>pu_channel_config := parse_hex_value text\<rparr>
      else if startswith text ''iChannelNames'' then
        (case index_label ''iChannelNames'' text of
           Some name \<Rightarrow> unit\<lparr>pu_channel_names := name\<rparr> | None \<Rightarrow> unit)
      else if startswith text ''bmControls'' then
        unit\<lparr>pu_controls := parse_hex_value text\<rparr>
      else if startswith text ''iProcessing'' then
        (case index_label ''iProcessing'' text of
           Some name \<Rightarrow> unit\<lparr>pu_unit_name := name\<rparr> | None \<Rightarrow> unit)
      else unit)"

definition parse_processing_unit ::
  "AudioControlInterface \<Rightarrow> nat \<Rightarrow> LsusbLine list \<Rightarrow> AudioControlInterface \<times> LsusbLine list" where
  "parse_processing_unit ac start_indent ls =
     (case body_loop processing_unit_line start_indent new_ProcessingUnit ls of
        (unit, ls') \<Rightarrow> (ac\<lparr>processing_units := processing_units ac @ [unit]\<rparr>, ls'))"

definition extension_unit_line :: "string \<Rightarrow> ExtensionUnit \<Rightarrow> ExtensionUnit" where
  "extension_unit_line text unit =
     (if startswith text ''bUnitID'' then
        unit\<lparr>xu_unit_id := parse_int_value text\<rparr>
      else if startswith text ''wExtensionCode'' then
        unit\<lparr>xu_extension_code := parse_hex_value text\<rparr>
      else if startswith text ''bNrInPins'' then
        unit\<lparr>xu_nr_in_pins := parse_int_value text\<rparr>
      else if indexed_field ''baSourceID'' ''('' '')'' text then
        unit\<lparr>xu_source_ids :=
               xu_source_ids unit @ [parse_int_value (after_last (CHR '')'') text)]\<rparr>
      else if startswith text ''bNrChannels'' then
        unit\<lparr>xu_nr_channels := parse_int_value text\<rparr>
      else if startswith text ''wChannelConfig'' then
        unit\<lparr>xu_channel_config := parse_hex_value text\<rparr>
      else if startswith text ''iChannelNames'' then
        (case index_label ''iChannelNames'' text of
           Some name \<Rightarrow> unit\<lparr>xu_channel_names := name\<rparr> | None \<Rightarrow> unit)
      else if startswith text ''bmControls'' then
        unit\<lparr>xu_controls := parse_hex_value text\<rparr>
      else if startswith text ''iExtension'' then
        (case index_label ''iExtension'' text of
           Some name \<Rightarrow> unit\<lparr>xu_unit_name := name\<rparr> | None \<Rightarrow> unit)
      else unit)"

definition parse_extension_unit ::
  "AudioControlInterface \<Rightarrow> nat \<Rightarrow> LsusbLine list \<Rightarrow> AudioControlInterface \<times> LsusbLine list" where
  "parse_extension_unit ac start_indent ls =
     (case body_loop extension_unit_line start_indent new_ExtensionUnit ls of
        (unit, ls') \<Rightarrow> (ac\<lparr>extension_units := extension_units ac @ [unit]\<rparr>, ls'))"

definition clock_source_line :: "string \<Rightarrow> ClockSource \<Rightarrow> ClockSource" where
  "clock_source_line text clock =
     (if startswith text ''bClockID'' then
        clock\<lparr>cs_clock_id := parse_int_value text\<rparr>
      else if startswith text ''bmAttributes'' then
        clock\<lparr>cs_attributes := parse_hex_value text\<rparr>
      else if startswith text ''bmControls'' then
        clock\<lparr>cs_controls := parse_hex_value text\<rparr>
      else if startswith text ''bAssocTerminal'' then
        clock\<lparr>cs_assoc_terminal := parse_int_value text\<rparr>
      else if startswith text ''iClockSource'' then
        (case index_label ''iClockSource'' text of
           Some name \<Rightarrow> clock\<lparr>cs_clock_source_name := name\<rparr> | None \<Rightarrow> clock)
      else clock)"

definition parse_clock_source ::
  "AudioControlInterface \<Rightarrow> nat \<Rightarrow> LsusbLine list \<Rightarrow> AudioControlInterface \<times> LsusbLine list" where
  "parse_clock_source ac start_indent ls =
     (case body_loop clock_source_line start_indent new_ClockSource ls of
        (clock, ls') \<Rightarrow> (ac\<lparr>clock_sources := clock_sources ac @ [clock]\<rparr>, ls'))"

definition clock_selector_line :: "string \<Rightarrow> ClockSelector \<Rightarrow> ClockSelector" where
  "clock_selector_line text clock =
     (if startswith text ''bClockID'' then
        clock\<lparr>csel_clock_id := parse_int_value text\<rparr>
      else if startswith text ''bNrInPins'' then
        clock\<lparr>csel_nr_in_pins := parse_int_value text\<rparr>
      else if indexed_field ''baCSourceID'' ''('' '')'' text then
        clock\<lparr>csel_clock_pin_ids :=
                csel_clock_pin_ids clock @ [parse_int_value (after_last (CHR '')'') text)]\<rparr>
      else if startswith text ''bmControls'' then
        clock\<lparr>csel_controls := parse_hex_value text\<rparr>
      else if startswith text ''iClockSelector'' then
        (case index_label ''iClockSelector'' text of
           Some name \<Rightarrow> clock\<lparr>csel_clock_selector_name := name\<rparr> | None \<Rightarrow> clock)
      else clock)"

definition parse_clock_selector ::
  "AudioControlInterface \<Rightarrow> nat \<Rightarrow> LsusbLine list \<Rightarrow> AudioControlInterface \<times> LsusbLine list" where
  "parse_clock_selector ac start_indent ls =
     (case body_loop clock_selector_line start_indent new_ClockSelector ls of
        (clock, ls') \<Rightarrow> (ac\<lparr>clock_selectors := clock_selectors ac @ [clock]\<rparr>, ls'))"

definition clock_multiplier_line :: "string \<Rightarrow> ClockMultiplier \<Rightarrow> ClockMultiplier" where
  "clock_multiplier_line text clock =
     (if startswith text ''bClockID'' then
        clock\<lparr>cm_clock_id := parse_int_value text\<rparr>
      else if startswith text ''bCSourceID'' then
        clock\<lparr>cm_clock_source_id := parse_int_value text\<rparr>
      else if startswith text ''bmControls'' then
        clock\<lparr>cm_controls := parse_hex_value text\<rparr>
      else if startswith text ''iClockMultiplier'' then
        (case index_label ''iClockMultiplier'' text of
           Some name \<Rightarrow> clock\<lparr>cm_clock_multiplier_name := name\<rparr> | None \<Rightarrow> clock)
      else clock)"

definition parse_clock_multiplier ::
  "AudioControlInterface \<Rightarrow> nat \<Rightarrow> LsusbLine list \<Rightarrow> AudioControlInterface \<times> LsusbLine list" where
  "parse_clock_multiplier ac start_indent ls =
     (case body_loop clock_multiplier_line start_indent new_ClockMultiplier ls of
        (clock, ls') \<Rightarrow> (ac\<lparr>clock_multipliers := clock_multipliers ac @ [clock]\<rparr>, ls'))"

text \<open>\<open>_parse_audio_control_descriptor\<close>: the device gets its audio-control
  interface when it has none yet, the body is scanned for the subtype, and the parser of
  that subtype reads on from the line where the scan stopped.\<close>

definition parse_audio_control_descriptor ::
  "USBAudioDevice \<Rightarrow> LsusbLine \<Rightarrow> LsusbLine list \<Rightarrow> USBAudioDevice \<times> LsusbLine list" where
  "parse_audio_control_descriptor dev hdr ls =
     (let ac = (case audio_control dev of None \<Rightarrow> new_AudioControlInterface | Some ac \<Rightarrow> ac);
          start_indent = indent hdr
      in case scan_subtype start_indent ls of
           (subtype, ls) \<Rightarrow>
             (case (if subtype = AC_HEADER then parse_ac_header ac start_indent ls
                    else if subtype = AC_INPUT_TERMINAL then parse_input_terminal ac start_indent ls
                    else if subtype = AC_OUTPUT_TERMINAL then parse_output_terminal ac start_indent ls
                    else if subtype = AC_FEATURE_UNIT then parse_feature_unit ac start_indent ls
                    else if subtype = AC_MIXER_UNIT then parse_mixer_unit ac start_indent ls
                    else if subtype = AC_SELECTOR_UNIT then parse_selector_unit ac start_indent ls
                    else if subtype = AC_PROCESSING_UNIT then parse_processing_unit ac start_indent ls
                    else if subtype = AC_EXTENSION_UNIT then parse_extension_unit ac start_indent ls
                    else if subtype = AC_CLOCK_SOURCE then parse_clock_source ac start_indent ls
                    else if subtype = AC_CLOCK_SELECTOR then parse_clock_selector ac start_indent ls
                    else if subtype = AC_CLOCK_MULTIPLIER then parse_clock_multiplier ac start_indent ls
                    else (ac, skip_block start_indent ls)) of
                (ac, ls) \<Rightarrow> (dev\<lparr>audio_control := Some ac\<rparr>, ls)))"

subsection \<open>AudioStreaming interface descriptors\<close>

definition as_general_line :: "string \<Rightarrow> AudioStreamingInterface \<Rightarrow> AudioStreamingInterface" where
  "as_general_line text streaming =
     (if startswith text ''bTerminalLink'' then
        streaming\<lparr>terminal_link := parse_int_value text\<rparr>
      else if startswith text ''bDelay'' then
        streaming\<lparr>delay := parse_int_value text\<rparr>
      else if startswith text ''wFormatTag'' then
        streaming\<lparr>format_tag := parse_hex_value text\<rparr>
      else if startswith text ''bmControls'' then
        streaming\<lparr>asi_controls := parse_hex_value text\<rparr>
      else if startswith text ''bFormatType'' then
        streaming
      else if startswith text ''bNrChannels'' then
        streaming\<lparr>asi_nr_channels := Some (parse_int_value text)\<rparr>
      else if startswith text ''bClockSourceID'' then
        streaming\<lparr>asi_clock_source_id := parse_int_value text\<rparr>
      else streaming)"

definition parse_as_general ::
  "USBAudioDevice \<Rightarrow> InterfaceDescriptor \<Rightarrow> nat \<Rightarrow> LsusbLine list
     \<Rightarrow> USBAudioDevice \<times> LsusbLine list" where
  "parse_as_general dev iface start_indent ls =
     (case body_loop as_general_line start_indent
             (new_AudioStreamingInterface
                \<lparr>asi_interface_number := interface_number iface,
                 asi_alternate_setting := alternate_setting iface\<rparr>) ls of
        (streaming, ls') \<Rightarrow>
          (dev\<lparr>streaming_interfaces := streaming_interfaces dev @ [streaming]\<rparr>, ls'))"

definition as_format_type_line :: "string \<Rightarrow> FormatTypeDescriptor \<Rightarrow> FormatTypeDescriptor" where
  "as_format_type_line text fmt =
     (if startswith text ''bFormatType'' then
        fmt\<lparr>format_type := parse_int_value text\<rparr>
      else if startswith text ''bNrChannels'' then
        fmt\<lparr>fmt_nr_channels := parse_int_value text\<rparr>
      else if startswith text ''bSubframeSize'' then
        fmt\<lparr>subframe_size := parse_int_value text\<rparr>
      else if startswith text ''bBitResolution'' then
        fmt\<lparr>bit_resolution := parse_int_value text\<rparr>
      else if startswith text ''bSubslotSize'' then
        fmt\<lparr>subframe_size := parse_int_value text\<rparr>
      else if startswith text ''bSamFreqType'' then
        fmt
      else if indexed_field ''tSamFreq'' ''['' '']'' text then
        fmt\<lparr>sample_frequencies :=
              sample_frequencies fmt @ [parse_int_value (after_last (CHR '']'') text)]\<rparr>
      else if startswith text ''tLowerSamFreq'' then
        fmt\<lparr>freq_min := parse_int_value text\<rparr>
      else if startswith text ''tUpperSamFreq'' then
        fmt\<lparr>freq_max := parse_int_value text\<rparr>
      else fmt)"

text \<open>The format is attached to the most recent streaming interface, if there is one;
  a channel count of zero is replaced by the count that the AS General descriptor left
  on that interface.\<close>

definition parse_as_format_type ::
  "USBAudioDevice \<Rightarrow> nat \<Rightarrow> LsusbLine list \<Rightarrow> USBAudioDevice \<times> LsusbLine list" where
  "parse_as_format_type dev start_indent ls =
     (case body_loop as_format_type_line start_indent new_FormatTypeDescriptor ls of
        (fmt, ls') \<Rightarrow>
          (if streaming_interfaces dev \<noteq> [] then
             (let streaming = last (streaming_interfaces dev);
                  fmt = (if fmt_nr_channels fmt = 0 then
                           (case asi_nr_channels streaming of
                              Some n \<Rightarrow> fmt\<lparr>fmt_nr_channels := n\<rparr>
                            | None \<Rightarrow> fmt)
                         else fmt)
              in dev\<lparr>streaming_interfaces :=
                       butlast (streaming_interfaces dev) @ [streaming\<lparr>asi_format := Some fmt\<rparr>]\<rparr>)
           else dev, ls'))"

definition parse_audio_streaming_descriptor ::
  "USBAudioDevice \<Rightarrow> InterfaceDescriptor \<Rightarrow> LsusbLine \<Rightarrow> LsusbLine list
     \<Rightarrow> USBAudioDevice \<times> LsusbLine list" where
  "parse_audio_streaming_descriptor dev iface hdr ls =
     (let start_indent = indent hdr
      in case scan_subtype start_indent ls of
           (subtype, ls) \<Rightarrow>
             if subtype = AS_GENERAL then parse_as_general dev iface start_indent ls
             else if subtype = AS_FORMAT_TYPE then parse_as_format_type dev start_indent ls
             else (dev, skip_block start_indent ls))"

subsection \<open>Where a section parser leaves the cursor\<close>

text \<open>
  The nested loops below recurse on the lines that a section parser returns; that they
  end rests on the fact that a section parser returns a suffix of its input, namely
  the input without its longest prefix of lines indented deeper than the header.
\<close>

lemma body_loop_rest:
  "snd (body_loop decode start_indent x ls) = dropWhile (\<lambda>l. start_indent < indent l) ls"
  by (induction ls arbitrary: x) auto

lemma dropWhile_deeper:
  "k \<le> n \<Longrightarrow> dropWhile (\<lambda>l. k < indent l) (dropWhile (\<lambda>l. n < indent l) ls)
     = dropWhile (\<lambda>l. k < indent l) (ls :: LsusbLine list)"
  by (induction ls) auto

lemma scan_subtype_rest:
  "dropWhile (\<lambda>l. start_indent < indent l) (snd (scan_subtype start_indent ls))
     = dropWhile (\<lambda>l. start_indent < indent l) ls"
  by (induction ls) auto

lemma skip_block_rest:
  "skip_block start_indent ls = dropWhile (\<lambda>l. start_indent < indent l) ls"
  by (simp add: skip_block_def body_loop_rest)

lemma endpoint_loop_rest:
  "snd (endpoint_loop start_indent ep ls) = dropWhile (\<lambda>l. start_indent < indent l) ls"
proof (induction start_indent ep ls rule: endpoint_loop.induct)
  case (1 start_indent ep)
  show ?case by simp
next
  case (2 start_indent ep l ls)
  show ?case
  proof (cases "start_indent < indent l")
    case False
    then show ?thesis by simp
  next
    case deeper: True
    show ?thesis
    proof (cases "endpoint_field (content l) ep")
      case (Some ep')
      with deeper "2.IH" show ?thesis by simp
    next
      case None
      show ?thesis
      proof (cases "startswith (content l) ''AudioControl Endpoint Descriptor:''")
        case False
        with deeper None "2.IH" show ?thesis by simp
      next
        case True
        obtain ep' ls' where r: "parse_audio_endpoint_descriptor ep l ls = (ep', ls')"
          by (cases "parse_audio_endpoint_descriptor ep l ls")
        then have "ls' = dropWhile (\<lambda>x. indent l < indent x) ls"
          using body_loop_rest[of audio_endpoint_line "indent l" ep ls]
          by (simp add: parse_audio_endpoint_descriptor_def)
        moreover have "snd (endpoint_loop start_indent ep' ls')
                         = dropWhile (\<lambda>l. start_indent < indent l) ls'"
          using "2.IH" deeper None True r by simp
        ultimately show ?thesis
          using deeper None True r by (simp add: dropWhile_deeper)
      qed
    qed
  qed
qed

lemma parse_endpoint_descriptor_rest:
  "snd (parse_endpoint_descriptor hdr ls) = dropWhile (\<lambda>l. indent hdr < indent l) ls"
  by (simp add: parse_endpoint_descriptor_def endpoint_loop_rest)

lemma parse_audio_control_descriptor_rest:
  "snd (parse_audio_control_descriptor dev hdr ls) = dropWhile (\<lambda>l. indent hdr < indent l) ls"
proof -
  obtain subtype ls1 where s: "scan_subtype (indent hdr) ls = (subtype, ls1)"
    by (cases "scan_subtype (indent hdr) ls")
  then have "dropWhile (\<lambda>l. indent hdr < indent l) ls1 = dropWhile (\<lambda>l. indent hdr < indent l) ls"
    using scan_subtype_rest[of "indent hdr" ls] by simp
  then show ?thesis
    by (simp add: body_loop_rest parse_audio_control_descriptor_def Let_def s skip_block_rest
          parse_ac_header_def parse_input_terminal_def parse_output_terminal_def
          parse_feature_unit_def parse_mixer_unit_def parse_selector_unit_def
          parse_processing_unit_def parse_extension_unit_def parse_clock_source_def
          parse_clock_selector_def parse_clock_multiplier_def case_prod_unfold)
qed

lemma parse_audio_streaming_descriptor_rest:
  "snd (parse_audio_streaming_descriptor dev iface hdr ls)
     = dropWhile (\<lambda>l. indent hdr < indent l) ls"
proof -
  obtain subtype ls1 where s: "scan_subtype (indent hdr) ls = (subtype, ls1)"
    by (cases "scan_subtype (indent hdr) ls")
  then have "dropWhile (\<lambda>l. indent hdr < indent l) ls1 = dropWhile (\<lambda>l. indent hdr < indent l) ls"
    using scan_subtype_rest[of "indent hdr" ls] by simp
  then show ?thesis
    by (simp add: body_loop_rest parse_audio_streaming_descriptor_def Let_def s skip_block_rest
          parse_as_general_def parse_as_format_type_def case_prod_unfold)
qed

lemma rest_length:
  "(x, ls') = p \<Longrightarrow> snd p = dropWhile P ls \<Longrightarrow> length ls' \<le> length ls"
  by (metis length_dropWhile_le snd_conv)

subsection \<open>Interface and configuration descriptors\<close>

definition interface_field :: "string \<Rightarrow> InterfaceDescriptor \<Rightarrow> InterfaceDescriptor option" where
  "interface_field text iface =
     (if startswith text ''bInterfaceNumber'' then
        Some (iface\<lparr>interface_number := parse_int_value text\<rparr>)
      else if startswith text ''bAlternateSetting'' then
        Some (iface\<lparr>alternate_setting := parse_int_value text\<rparr>)
      else if startswith text ''bNumEndpoints'' then
        Some (iface\<lparr>num_endpoints := parse_int_value text\<rparr>)
      else if startswith text ''bInterfaceClass'' then
        Some (iface\<lparr>interface_class := parse_int_value text\<rparr>)
      else if startswith text ''bInterfaceSubClass'' then
        Some (iface\<lparr>interface_subclass := parse_int_value text\<rparr>)
      else if startswith text ''bInterfaceProtocol'' then
        Some (iface\<lparr>interface_protocol := parse_int_value text\<rparr>)
      else if startswith text ''iInterface'' then
        Some (case index_label ''iInterface'' text of
                Some name \<Rightarrow> iface\<lparr>interface_name := name\<rparr> | None \<Rightarrow> iface)
      else None)"

function interface_loop ::
  "nat \<Rightarrow> InterfaceDescriptor \<Rightarrow> USBAudioDevice \<Rightarrow> LsusbLine list
     \<Rightarrow> (InterfaceDescriptor \<times> USBAudioDevice) \<times> LsusbLine list" where
  "interface_loop start_indent iface dev [] = ((iface, dev), [])"
| "interface_loop start_indent iface dev (l # ls) =
     (if indent l > start_indent then
        (case interface_field (content l) iface of
           Some iface' \<Rightarrow> interface_loop start_indent iface' dev ls
         | None \<Rightarrow>
             if startswith (content l) ''Endpoint Descriptor:'' then
               (case parse_endpoint_descriptor l ls of
                  (ep, ls') \<Rightarrow>
                    interface_loop start_indent (iface\<lparr>endpoints := endpoints iface @ [ep]\<rparr>)
                      dev ls')
             else if startswith (content l) ''AudioControl Interface Descriptor:'' then
               (case parse_audio_control_descriptor dev l ls of
                  (dev', ls') \<Rightarrow> interface_loop start_indent iface dev' ls')
             else if startswith (content l) ''AudioStreaming Interface Descriptor:'' then
               (case parse_audio_streaming_descriptor dev iface l ls of
                  (dev', ls') \<Rightarrow> interface_loop start_indent iface dev' ls')
             else interface_loop start_indent iface dev ls)
      else ((iface, dev), l # ls))"
  by pat_completeness auto
termination
  by (relation "measure (\<lambda>(start_indent, iface, dev, ls). length ls)")
     (auto simp: less_Suc_eq_le case_prod_unfold length_dropWhile_le
          parse_audio_control_descriptor_rest parse_audio_streaming_descriptor_rest
        intro: rest_length[OF _ parse_endpoint_descriptor_rest]
          rest_length[OF _ parse_audio_control_descriptor_rest]
          rest_length[OF _ parse_audio_streaming_descriptor_rest])

definition parse_interface_descriptor ::
  "USBAudioDevice \<Rightarrow> LsusbLine \<Rightarrow> LsusbLine list
     \<Rightarrow> (InterfaceDescriptor \<times> USBAudioDevice) \<times> LsusbLine list" where
  "parse_interface_descriptor dev hdr ls =
     interface_loop (indent hdr) new_InterfaceDescriptor dev ls"

lemma interface_loop_rest:
  "snd (interface_loop start_indent iface dev ls) = dropWhile (\<lambda>l. start_indent < indent l) ls"
proof (induction start_indent iface dev ls rule: interface_loop.induct)
  case (1 start_indent iface dev)
  show ?case by simp
next
  case (2 start_indent iface dev l ls)
  show ?case
  proof (cases "start_indent < indent l")
    case False
    then show ?thesis by simp
  next
    case deeper: True
    show ?thesis
    proof (cases "interface_field (content l) iface")
      case (Some iface')
      with deeper "2.IH" show ?thesis by simp
    next
      case None
      consider (ep) "startswith (content l) ''Endpoint Descriptor:''"
        | (ac) "\<not> startswith (content l) ''Endpoint Descriptor:''"
               "startswith (content l) ''AudioControl Interface Descriptor:''"
        | (as) "\<not> startswith (content l) ''Endpoint Descriptor:''"
               "\<not> startswith (content l) ''AudioControl Interface Descriptor:''"
               "startswith (content l) ''AudioStreaming Interface Descriptor:''"
        | (other) "\<not> startswith (content l) ''Endpoint Descriptor:''"
               "\<not> startswith (content l) ''AudioControl Interface Descriptor:''"
               "\<not> startswith (content l) ''AudioStreaming Interface Descriptor:''"
        by blast
      then show ?thesis
      proof cases
        case ep
        obtain e ls' where r: "parse_endpoint_descriptor l ls = (e, ls')"
          by (cases "parse_endpoint_descriptor l ls")
        then have "ls' = dropWhile (\<lambda>x. indent l < indent x) ls"
          using parse_endpoint_descriptor_rest[of l ls] by simp
        moreover have "snd (interface_loop start_indent (iface\<lparr>endpoints := endpoints iface @ [e]\<rparr>) dev ls')
                         = dropWhile (\<lambda>l. start_indent < indent l) ls'"
          using "2.IH" deeper None ep r by simp
        ultimately show ?thesis
          using deeper None ep r by (simp add: dropWhile_deeper)
      next
        case ac
        obtain d ls' where r: "parse_audio_control_descriptor dev l ls = (d, ls')"
          by (cases "parse_audio_control_descriptor dev l ls")
        then have "ls' = dropWhile (\<lambda>x. indent l < indent x) ls"
          using parse_audio_control_descriptor_rest[of dev l ls] by simp
        moreover have "snd (interface_loop start_indent iface d ls')
                         = dropWhile (\<lambda>l. start_indent < indent l) ls'"
          using "2.IH" deeper None ac r by simp
        ultimately show ?thesis
          using deeper None ac r by (simp add: dropWhile_deeper)
      next
        case as
        obtain d ls' where r: "parse_audio_streaming_descriptor dev iface l ls = (d, ls')"
          by (cases "parse_audio_streaming_descriptor dev iface l ls")
        then have "ls' = dropWhile (\<lambda>x. indent l < indent x) ls"
          using parse_audio_streaming_descriptor_rest[of dev iface l ls] by simp
        moreover have "snd (interface_loop start_indent iface d ls')
                         = dropWhile (\<lambda>l. start_indent < indent l) ls'"
          using "2.IH" deeper None as r by simp
        ultimately show ?thesis
          using deeper None as r by (simp add: dropWhile_deeper)
      next
        case other
        with deeper None "2.IH" show ?thesis by simp
      qed
    qed
  qed
qed

lemma parse_interface_descriptor_rest:
  "snd (parse_interface_descriptor dev hdr ls) = dropWhile (\<lambda>l. indent hdr < indent l) ls"
  by (simp add: parse_interface_descriptor_def interface_loop_rest)

definition configuration_field ::
  "string \<Rightarrow> ConfigurationDescriptor \<Rightarrow> ConfigurationDescriptor option" where
  "configuration_field text config =
     (if startswith text ''bConfigurationValue'' then
        Some (config\<lparr>config_value := parse_int_value text\<rparr>)
      else if startswith text ''bNumInterfaces'' then
        Some (config\<lparr>num_interfaces := parse_int_value text\<rparr>)
      else if startswith text ''iConfiguration'' then
        Some (case index_label ''iConfiguration'' text of
                Some name \<Rightarrow> config\<lparr>config_name := name\<rparr> | None \<Rightarrow> config)
      else if startswith text ''bmAttributes'' then
        Some (config\<lparr>attributes := parse_hex_value text\<rparr>)
      else if startswith text ''MaxPower'' then
        Some (config\<lparr>max_power_ma := parse_int_value text\<rparr>)
      else None)"

function configuration_loop ::
  "nat \<Rightarrow> ConfigurationDescriptor \<Rightarrow> USBAudioDevice \<Rightarrow> LsusbLine list
     \<Rightarrow> (ConfigurationDescriptor \<times> USBAudioDevice) \<times> LsusbLine list" where
  "configuration_loop start_indent config dev [] = ((config, dev), [])"
| "configuration_loop start_indent config dev (l # ls) =
     (if indent l > start_indent then
        (case configuration_field (content l) config of
           Some config' \<Rightarrow> configuration_loop start_indent config' dev ls
         | None \<Rightarrow>
             if startswith (content l) ''Interface Descriptor:'' then
               (case parse_interface_descriptor dev l ls of
                  ((iface, dev'), ls') \<Rightarrow>
                    configuration_loop start_indent
                      (config\<lparr>interfaces := interfaces config @ [iface]\<rparr>) dev' ls')
             else configuration_loop start_indent config dev ls)
      else ((config, dev), l # ls))"
  by pat_completeness auto
termination
  by (relation "measure (\<lambda>(start_indent, config, dev, ls). length ls)")
     (auto simp: less_Suc_eq_le case_prod_unfold length_dropWhile_le
          parse_interface_descriptor_rest
        intro: rest_length[OF _ parse_interface_descriptor_rest])

definition parse_configuration_descriptor ::
  "USBAudioDevice \<Rightarrow> LsusbLine \<Rightarrow> LsusbLine list
     \<Rightarrow> (ConfigurationDescriptor \<times> USBAudioDevice) \<times> LsusbLine list" where
  "parse_configuration_descriptor dev hdr ls =
     configuration_loop (indent hdr) new_ConfigurationDescriptor dev ls"

lemma configuration_loop_rest:
  "snd (configuration_loop start_indent config dev ls)
     = dropWhile (\<lambda>l. start_indent < indent l) ls"
proof (induction start_indent config dev ls rule: configuration_loop.induct)
  case (1 start_indent config dev)
  show ?case by simp
next
  case (2 start_indent config dev l ls)
  show ?case
  proof (cases "start_indent < indent l")
    case False
    then show ?thesis by simp
  next
    case deeper: True
    show ?thesis
    proof (cases "configuration_field (content l) config")
      case (Some config')
      with deeper "2.IH" show ?thesis by simp
    next
      case None
      show ?thesis
      proof (cases "startswith (content l) ''Interface Descriptor:''")
        case False
        with deeper None "2.IH" show ?thesis by simp
      next
        case True
        obtain iface d ls' where r: "parse_interface_descriptor dev l ls = ((iface, d), ls')"
          by (cases "parse_interface_descriptor dev l ls") auto
        then have "ls' = dropWhile (\<lambda>x. indent l < indent x) ls"
          using parse_interface_descriptor_rest[of dev l ls] by simp
        moreover have "snd (configuration_loop start_indent
                              (config\<lparr>interfaces := interfaces config @ [iface]\<rparr>) d ls')
                         = dropWhile (\<lambda>l. start_indent < indent l) ls'"
          using "2.IH" deeper None True r by simp
        ultimately show ?thesis
          using deeper None True r by (simp add: dropWhile_deeper)
      qed
    qed
  qed
qed

lemma parse_configuration_descriptor_rest:
  "snd (parse_configuration_descriptor dev hdr ls) = dropWhile (\<lambda>l. indent hdr < indent l) ls"
  by (simp add: parse_configuration_descriptor_def configuration_loop_rest)

lemma device_loop_length:
  "device_loop start_indent desc ls = Inr (desc', ls') \<Longrightarrow> length ls' \<le> length ls"
  by (induction ls arbitrary: desc)
     (auto split: if_splits sum.splits step.splits intro: le_SucI)

subsection \<open>The whole text\<close>

text \<open>
  \<open>parse\<close>: the loop over the top-level lines. Each Configuration Descriptor
  section is parsed into a fresh descriptor that is then assigned to
  \<open>device.configuration\<close>.
\<close>

function parse_loop :: "USBAudioDevice \<Rightarrow> LsusbLine list \<Rightarrow> error + USBAudioDevice" where
  "parse_loop dev [] = Inr dev"
| "parse_loop dev (l # ls) =
     (if startswith (content l) ''Bus '' then parse_loop dev ls
      else if startswith (content l) ''Device Descriptor:'' then
        (case parse_device_descriptor l ls of
           Inl e \<Rightarrow> Inl e
         | Inr (desc, ls') \<Rightarrow> parse_loop (dev\<lparr>device := desc\<rparr>) ls')
      else if startswith (content l) ''Configuration Descriptor:'' then
        (case parse_configuration_descriptor dev l ls of
           ((config, dev'), ls') \<Rightarrow> parse_loop (dev'\<lparr>configuration := Some config\<rparr>) ls')
      else parse_loop dev ls)"
  by pat_completeness auto
termination
  by (relation "measure (\<lambda>(dev, ls). length ls)")
     (auto simp: less_Suc_eq_le case_prod_unfold length_dropWhile_le
          parse_configuration_descriptor_rest parse_device_descriptor_def
        intro: rest_length[OF _ parse_configuration_descriptor_rest]
        dest: device_loop_length)

text \<open>
  \<open>_build_alternate_settings\<close>. The endpoint of a streaming interface is looked up
  in the first interface descriptor of \<open>device.configuration\<close> with the same interface
  number and alternate setting: its first endpoint of usage type data, else its first
  endpoint. The streaming interface object is shared between \<open>device.streaming_interfaces\<close>
  and the alternate setting, so the endpoint stored in it shows in both.
\<close>

definition pick_endpoint :: "EndpointDescriptor list \<Rightarrow> EndpointDescriptor option" where
  "pick_endpoint eps =
     (case List.find (\<lambda>ep. usage_type ep = DATA) eps of
        Some ep \<Rightarrow> Some ep
      | None \<Rightarrow> (case eps of [] \<Rightarrow> None | ep # _ \<Rightarrow> Some ep))"

definition find_endpoint ::
  "ConfigurationDescriptor \<Rightarrow> AudioStreamingInterface \<Rightarrow> EndpointDescriptor option" where
  "find_endpoint config streaming =
     (case List.find (\<lambda>iface. interface_number iface = asi_interface_number streaming
                            \<and> alternate_setting iface = asi_alternate_setting streaming)
             (interfaces config) of
        None \<Rightarrow> None
      | Some iface \<Rightarrow> pick_endpoint (endpoints iface))"

definition attach_endpoint ::
  "ConfigurationDescriptor \<Rightarrow> AudioStreamingInterface \<Rightarrow> AudioStreamingInterface" where
  "attach_endpoint config streaming =
     (case find_endpoint config streaming of
        None \<Rightarrow> streaming
      | Some ep \<Rightarrow> streaming\<lparr>asi_endpoint := Some ep\<rparr>)"

definition alternate_setting_of ::
  "ConfigurationDescriptor \<Rightarrow> AudioStreamingInterface \<Rightarrow> AlternateSetting" where
  "alternate_setting_of config streaming =
     \<lparr>alt_interface_number = asi_interface_number streaming,
      alt_alternate_setting = asi_alternate_setting streaming,
      streaming_interface = Some (attach_endpoint config streaming),
      alt_format = asi_format streaming,
      alt_endpoint = find_endpoint config streaming\<rparr>"

definition build_alternate_settings :: "USBAudioDevice \<Rightarrow> USBAudioDevice" where
  "build_alternate_settings dev =
     (case configuration dev of
        None \<Rightarrow> dev\<lparr>alternate_settings := []\<rparr>
      | Some config \<Rightarrow>
          dev\<lparr>streaming_interfaces := map (attach_endpoint config) (streaming_interfaces dev),
              alternate_settings := map (alternate_setting_of config) (streaming_interfaces dev)\<rparr>)"

definition parse :: "LsusbLine list \<Rightarrow> error + USBAudioDevice" where
  "parse ls =
     (case parse_loop new_USBAudioDevice ls of
        Inl e \<Rightarrow> Inl e
      | Inr dev \<Rightarrow> Inr (build_alternate_settings dev))"

definition parse_lsusb :: "string \<Rightarrow> error + USBAudioDevice" where
  "parse_lsusb text = parse (tokenize text)"


section \<open>Notions used by the properties of the parser\<close>




text \<open>The keys of alternate settings and of streaming interfaces, and lists of
  keys in lexicographic order.\<close>

definition alt_keys :: "USBAudioDevice \<Rightarrow> (int \<times> int) list" where
  "alt_keys dev =
     map (\<lambda>a. (alt_interface_number a, alt_alternate_setting a)) (alternate_settings dev)"

definition streaming_keys :: "USBAudioDevice \<Rightarrow> (int \<times> int) list" where
  "streaming_keys dev =
     map (\<lambda>s. (asi_interface_number s, asi_alternate_setting s)) (streaming_interfaces dev)"

fun key_le :: "int \<times> int \<Rightarrow> int \<times> int \<Rightarrow> bool" where
  "key_le (a, b) (c, d) = (a < c \<or> (a = c \<and> b \<le> d))"

fun keys_sorted :: "(int \<times> int) list \<Rightarrow> bool" where
  "keys_sorted [] = True"
| "keys_sorted [k] = True"
| "keys_sorted (k # k' # ks) = (key_le k k' \<and> keys_sorted (k' # ks))"



text \<open>A line that starts with \<open>bcdUSB\<close> and has no value after the name.\<close>

definition bare_bcdusb :: "LsusbLine \<Rightarrow> bool" where
  "bare_bcdusb l =
     (startswith (content l) ''bcdUSB'' \<and> split (parse_field (content l) ''bcdUSB'') = [])"







section \<open>Example inputs\<close>

text \<open>
  The audio-control interface of a stereo headset: USB streaming input terminal 1 and
  microphone 2, speaker 6 fed by feature unit 5, USB streaming output terminal 7 fed by
  feature unit 4.
\<close>

definition headset_ac :: AudioControlInterface where
  "headset_ac = new_AudioControlInterface
     \<lparr>input_terminals :=
        [new_InputTerminal\<lparr>it_terminal_id := 1, it_terminal_type := 0x0101, it_nr_channels := 2\<rparr>,
         new_InputTerminal\<lparr>it_terminal_id := 2, it_terminal_type := 0x0201, it_nr_channels := 1\<rparr>],
      output_terminals :=
        [new_OutputTerminal\<lparr>ot_terminal_id := 6, ot_terminal_type := 0x0301, ot_source_id := 5\<rparr>,
         new_OutputTerminal\<lparr>ot_terminal_id := 7, ot_terminal_type := 0x0101, ot_source_id := 4\<rparr>],
      feature_units :=
        [new_FeatureUnit\<lparr>fu_unit_id := 4, fu_source_id := 2\<rparr>,
         new_FeatureUnit\<lparr>fu_unit_id := 5, fu_source_id := 1\<rparr>]\<rparr>"

definition headset_device :: USBAudioDevice where
  "headset_device = new_USBAudioDevice\<lparr>audio_control := Some headset_ac\<rparr>"

text \<open>
  A feedback topology: mixer 3 mixes input terminal 1 with the output of feature unit 4,
  which is itself fed by the mixer; output terminal 6 listens to the mixer. And two
  feature units, 4 and 5, that name each other as their source, with output terminal 6
  behind unit 5.
\<close>

definition mixer_loop_device :: USBAudioDevice where
  "mixer_loop_device = new_USBAudioDevice\<lparr>audio_control := Some (new_AudioControlInterface
     \<lparr>input_terminals := [new_InputTerminal\<lparr>it_terminal_id := 1\<rparr>],
      output_terminals := [new_OutputTerminal\<lparr>ot_terminal_id := 6, ot_source_id := 3\<rparr>],
      feature_units := [new_FeatureUnit\<lparr>fu_unit_id := 4, fu_source_id := 3\<rparr>],
      mixer_units := [new_MixerUnit\<lparr>mu_unit_id := 3, mu_source_ids := [1, 4]\<rparr>]\<rparr>)\<rparr>"

definition mutual_units_device :: USBAudioDevice where
  "mutual_units_device = new_USBAudioDevice\<lparr>audio_control := Some (new_AudioControlInterface
     \<lparr>input_terminals := [new_InputTerminal\<lparr>it_terminal_id := 1\<rparr>],
      output_terminals := [new_OutputTerminal\<lparr>ot_terminal_id := 6, ot_source_id := 5\<rparr>],
      feature_units := [new_FeatureUnit\<lparr>fu_unit_id := 4, fu_source_id := 5\<rparr>,
                        new_FeatureUnit\<lparr>fu_unit_id := 5, fu_source_id := 4\<rparr>]\<rparr>)\<rparr>"

text \<open>
  Feature unit 4 names a source, 9, that no entity has. Its own output is used by output
  terminal 6.
\<close>

definition dangling_device :: USBAudioDevice where
  "dangling_device = new_USBAudioDevice\<lparr>audio_control := Some (new_AudioControlInterface
     \<lparr>output_terminals := [new_OutputTerminal\<lparr>ot_terminal_id := 6, ot_source_id := 4\<rparr>],
      feature_units := [new_FeatureUnit\<lparr>fu_unit_id := 4, fu_source_id := 9\<rparr>]\<rparr>)\<rparr>"

text \<open>
  An input terminal whose id is 0, named as the source of output terminal 6 and as the
  only source of mixer 3.
\<close>

definition zero_id_ac :: AudioControlInterface where
  "zero_id_ac = new_AudioControlInterface
     \<lparr>input_terminals := [new_InputTerminal\<lparr>it_terminal_id := 0\<rparr>],
      output_terminals := [new_OutputTerminal\<lparr>ot_terminal_id := 6, ot_source_id := 0\<rparr>],
      mixer_units := [new_MixerUnit\<lparr>mu_unit_id := 3, mu_source_ids := [0]\<rparr>]\<rparr>"

text \<open>Texts are written line by line; every line ends with a line feed.\<close>

definition text_of_lines :: "string list \<Rightarrow> string" where
  "text_of_lines ls = concat (map (\<lambda>l. l @ [CHR 0x0A]) ls)"

text \<open>A device descriptor whose \<open>bcdUSB\<close> line has no value.\<close>

definition bcdusb_without_value :: string where
  "bcdusb_without_value = text_of_lines
     [''Device Descriptor:'',
      ''  bcdUSB'']"

text \<open>A device with two configurations.\<close>

definition two_configurations :: string where
  "two_configurations = text_of_lines
     [''Device Descriptor:'',
      ''  bNumConfigurations 2'',
      ''  Configuration Descriptor:'',
      ''    bConfigurationValue 1'',
      ''  Configuration Descriptor:'',
      ''    bConfigurationValue 2'']"

text \<open>A configuration that lists streaming interface 2 before streaming interface 1.\<close>

definition interface_2_before_1 :: string where
  "interface_2_before_1 = text_of_lines
     [''Configuration Descriptor:'',
      ''  Interface Descriptor:'',
      ''    bInterfaceNumber 2'',
      ''    bAlternateSetting 1'',
      ''    AudioStreaming Interface Descriptor:'',
      ''      bDescriptorSubtype 1 (AS_GENERAL)'',
      ''  Interface Descriptor:'',
      ''    bInterfaceNumber 1'',
      ''    bAlternateSetting 1'',
      ''    AudioStreaming Interface Descriptor:'',
      ''      bDescriptorSubtype 1 (AS_GENERAL)'']"





section \<open>Properties of the topology graph\<close>

lemma nodes_keyed_new: "nodes_keyed new_TopologyGraph"
  by (simp add: nodes_keyed_def new_TopologyGraph_def)

lemma nodes_keyed_add_input_terminal:
  "nodes_keyed g \<Longrightarrow> nodes_keyed (add_input_terminal t g)"
  by (auto simp: nodes_keyed_def add_input_terminal_def Let_def update_conv')

lemma nodes_keyed_add_output_terminal:
  "nodes_keyed g \<Longrightarrow> nodes_keyed (add_output_terminal t g)"
  by (auto simp: nodes_keyed_def add_output_terminal_def Let_def update_conv')

lemma nodes_keyed_add_unit_node:
  "nodes_keyed g \<Longrightarrow> nodes_keyed (add_unit_node k ty ch g)"
  by (auto simp: nodes_keyed_def add_unit_node_def Let_def update_conv')

lemma nodes_keyed_add_clock_node:
  "nodes_keyed g \<Longrightarrow> nodes_keyed (add_clock_node k ty g)"
  by (auto simp: nodes_keyed_def add_clock_node_def Let_def update_conv')

lemma nodes_keyed_fold:
  "(\<And>x g. nodes_keyed g \<Longrightarrow> nodes_keyed (f x g)) \<Longrightarrow> nodes_keyed g \<Longrightarrow> nodes_keyed (fold f xs g)"
  by (induction xs arbitrary: g) auto

lemma nodes_keyed_build_nodes: "nodes_keyed (build_nodes ac)"
  unfolding build_nodes_def add_clock_entities_def add_extension_units_def
    add_processing_units_def add_selector_units_def add_mixer_units_def
    add_feature_units_def add_output_terminals_def add_input_terminals_def
  by (intro nodes_keyed_fold nodes_keyed_add_input_terminal nodes_keyed_add_output_terminal
        nodes_keyed_add_unit_node nodes_keyed_add_clock_node nodes_keyed_new)

lemma nodes_build_edges [simp]: "nodes (build_edges g ac) = nodes g"
  by (simp add: build_edges_def)

lemma nodes_keyed_build_edges: "nodes_keyed g \<Longrightarrow> nodes_keyed (build_edges g ac)"
  by (simp add: nodes_keyed_def)

lemma trace_back_extends:
  "p \<in> set (trace_back graph nid current_path visited) \<Longrightarrow>
     \<exists>new. p = new @ current_path \<and> distinct new \<and> set new \<inter> visited = {}"
proof (induction graph nid current_path visited arbitrary: p rule: trace_back.induct)
  case (1 graph nid current_path visited)
  show ?case
  proof (cases "nid \<in> visited")
    case True
    with "1.prems" show ?thesis by (simp add: trace_back.simps)
  next
    case nv: False
    show ?thesis
    proof (cases "map_of (nodes graph) nid")
      case None
      with nv "1.prems" show ?thesis by (simp add: trace_back.simps)
    next
      case (Some node)
      show ?thesis
      proof (cases "node_type node = INPUT_TERMINAL")
        case True
        with nv Some "1.prems" have "p = [nid] @ current_path"
          by (simp add: trace_back.simps)
        with nv show ?thesis by (intro exI[of _ "[nid]"]) simp
      next
        case nt: False
        show ?thesis
        proof (cases "get_sources graph nid = []")
          case True
          with nv Some nt "1.prems" show ?thesis by (simp add: trace_back.simps)
        next
          case ne: False
          from nv Some nt ne "1.prems" obtain source where
            src: "source \<in> set (get_sources graph nid)" and
            p: "p \<in> set (trace_back graph (node_id source) (nid # current_path) (visited \<union> {nid}))"
            by (auto simp: trace_back.simps[of graph nid])
          from "1.IH"[OF nv Some nt ne src p] obtain new where
            new: "p = new @ nid # current_path" "distinct new" "set new \<inter> (visited \<union> {nid}) = {}"
            by blast
          with nv show ?thesis
            by (intro exI[of _ "new @ [nid]"]) auto
        qed
      qed
    qed
  qed
qed

lemma trace_back_distinct:
  "p \<in> set (trace_back graph nid [] {}) \<Longrightarrow> distinct p"
  using trace_back_extends[of p graph nid "[]" "{}"] by auto

lemma path_of_ids_ids:
  assumes "nodes_keyed graph" "sp \<in> set (path_of_ids graph ids)"
  shows "map node_id (path_nodes sp) = filter (has_node graph) ids"
proof -
  have "map node_id (concat (map (\<lambda>nid. case map_of (nodes graph) nid of
                                     Some n \<Rightarrow> [n] | None \<Rightarrow> []) ids))
        = filter (has_node graph) ids"
    using assms(1) by (induction ids) (auto simp: nodes_keyed_def has_node_def split: option.splits)
  with assms(2) show ?thesis
    by (auto simp: path_of_ids_def Let_def split: if_splits)
qed

lemma find_signal_paths_distinct:
  assumes "nodes_keyed graph" "sp \<in> set (find_signal_paths graph)"
  shows "distinct (map node_id (path_nodes sp))"
proof -
  from assms(2) obtain ot :: TopologyNode and ids where
    "ids \<in> set (trace_back graph (node_id ot) [] {})"
    "sp \<in> set (path_of_ids graph ids)"
    by (auto simp: find_signal_paths_def)
  then show ?thesis
    using path_of_ids_ids[OF assms(1)] trace_back_distinct by (metis distinct_filter)
qed

lemma sequence_paths_map_Some:
  "(\<And>x. x \<in> set xs \<Longrightarrow> g x = Some (f x)) \<Longrightarrow>
     sequence_paths (map g xs) = Some (concat (map f xs))"
  by (induction xs) auto

lemma trace_back_depth_enough:
  "card (fst ` set (nodes graph) - visited) < depth \<Longrightarrow>
     trace_back_depth depth graph nid current_path visited
       = Some (trace_back graph nid current_path visited)"
proof (induction graph nid current_path visited arbitrary: depth rule: trace_back.induct)
  case (1 graph nid current_path visited)
  from "1.prems" obtain d where d: "depth = Suc d" by (cases depth) auto
  show ?case
  proof (cases "nid \<notin> visited \<and> (\<exists>node. map_of (nodes graph) nid = Some node \<and>
            node_type node \<noteq> INPUT_TERMINAL \<and> get_sources graph nid \<noteq> [])")
    case False
    then show ?thesis unfolding d
      by (auto simp: trace_back.simps[of graph nid] split: option.splits)
  next
    case True
    then obtain node where nv: "nid \<notin> visited" and m: "map_of (nodes graph) nid = Some node"
      and nt: "node_type node \<noteq> INPUT_TERMINAL" and ne: "get_sources graph nid \<noteq> []" by blast
    from m have "nid \<in> fst ` set (nodes graph)"
      by (metis map_of_SomeD fst_conv image_eqI)
    with nv have "fst ` set (nodes graph) - (visited \<union> {nid})
                  \<subset> fst ` set (nodes graph) - visited" by auto
    then have "card (fst ` set (nodes graph) - (visited \<union> {nid}))
               < card (fst ` set (nodes graph) - visited)"
      by (intro psubset_card_mono) auto
    with "1.prems" d have less: "card (fst ` set (nodes graph) - (visited \<union> {nid})) < d" by simp
    have "sequence_paths (map (\<lambda>source.
              trace_back_depth d graph (node_id source) (nid # current_path) (visited \<union> {nid}))
            (get_sources graph nid))
        = Some (concat (map (\<lambda>source.
              trace_back graph (node_id source) (nid # current_path) (visited \<union> {nid}))
            (get_sources graph nid)))"
      by (rule sequence_paths_map_Some) (rule "1.IH"[OF nv m nt ne _ less])
    with nv m nt ne show ?thesis unfolding d
      by (simp add: trace_back.simps[of graph nid])
  qed
qed

lemma scalar_edges_source:
  "e \<in> set (scalar_edges graph src tgt) \<Longrightarrow> source_id e = src \<and> src \<noteq> 0 \<and> has_node graph src"
  by (auto simp: scalar_edges_def signal_edge_def split: if_splits)

lemma list_edges_source:
  "e \<in> set (list_edges graph srcs tgt) \<Longrightarrow> has_node graph (source_id e)"
  by (auto simp: list_edges_def signal_edge_def)

lemma new_edges_source:
  assumes "e \<in> set (output_terminal_edges graph ac @ feature_unit_edges graph ac
            @ mixer_unit_edges graph ac @ selector_unit_edges graph ac
            @ processing_unit_edges graph ac @ extension_unit_edges graph ac
            @ clock_selector_edges graph ac @ clock_multiplier_edges graph ac)"
  shows "has_node graph (source_id e)"
  using assms
  by (auto simp: output_terminal_edges_def feature_unit_edges_def mixer_unit_edges_def
      selector_unit_edges_def processing_unit_edges_def extension_unit_edges_def
      clock_selector_edges_def clock_multiplier_edges_def clock_edge_def
      dest: scalar_edges_source list_edges_source split: if_splits)

lemma edges_build_nodes: "edges (build_nodes ac) = []"
proof -
  have a: "edges (fold add_input_terminal xs g) = edges g" for xs g
    by (induction xs arbitrary: g) (auto simp: add_input_terminal_def Let_def)
  have b: "edges (fold add_output_terminal xs g) = edges g" for xs g
    by (induction xs arbitrary: g) (auto simp: add_output_terminal_def Let_def)
  have c: "edges (fold (\<lambda>u. add_unit_node (k u) ty (ch u)) xs g) = edges g"
    for k :: "'a \<Rightarrow> int" and ty ch xs g
    by (induction xs arbitrary: g) (auto simp: add_unit_node_def Let_def)
  have d: "edges (fold (\<lambda>u. add_clock_node (k u) ty) xs g) = edges g"
    for k :: "'a \<Rightarrow> int" and ty xs g
    by (induction xs arbitrary: g) (auto simp: add_clock_node_def Let_def)
  show ?thesis
    unfolding build_nodes_def add_clock_entities_def add_extension_units_def
      add_processing_units_def add_selector_units_def add_mixer_units_def
      add_feature_units_def add_output_terminals_def add_input_terminals_def
    by (simp add: a b c d new_TopologyGraph_def)
qed

lemma build_topology_Some:
  "audio_control dev = Some ac \<Longrightarrow>
     build_topology dev = (build_edges (build_nodes ac) ac)
        \<lparr>signal_paths := find_signal_paths (build_edges (build_nodes ac) ac)\<rparr>"
  by (simp add: build_topology_def Let_def)

lemma build_topology_None:
  "audio_control dev = None \<Longrightarrow> build_topology dev = new_TopologyGraph"
  by (simp add: build_topology_def)

text \<open>
  Claim C9. A source reference whose id is not a key of \<open>graph.nodes\<close> produces no
  edge: none of the edges that \<open>_build_edges\<close> appends has such an id as its source,
  whatever kind of entity holds the reference, and so no edge of a built topology has.
  \<open>_build_edges\<close> and \<open>build_topology\<close> have no failing branch: they are total
  functions of the audio-control interface.
\<close>

theorem dangling_reference_no_edge:
  "(\<not> has_node graph r \<longrightarrow>
      (\<forall>e \<in> set (drop (length (edges graph)) (edges (build_edges graph ac))). source_id e \<noteq> r))
   \<and> (\<not> has_node (build_topology dev) r \<longrightarrow>
      (\<forall>e \<in> set (edges (build_topology dev)). source_id e \<noteq> r))"
proof (intro conjI impI ballI)
  fix e assume d: "\<not> has_node graph r"
    and e: "e \<in> set (drop (length (edges graph)) (edges (build_edges graph ac)))"
  from e have "has_node graph (source_id e)"
    by (intro new_edges_source[of e graph ac]) (simp add: build_edges_def)
  with d show "source_id e \<noteq> r" by auto
next
  fix e assume d: "\<not> has_node (build_topology dev) r"
    and e: "e \<in> set (edges (build_topology dev))"
  show "source_id e \<noteq> r"
  proof (cases "audio_control dev")
    case None
    with e show ?thesis by (simp add: build_topology_None new_TopologyGraph_def)
  next
    case (Some ac)
    from e have "e \<in> set (edges (build_edges (build_nodes ac) ac))"
      by (simp add: build_topology_Some[OF Some])
    then have "has_node (build_nodes ac) (source_id e)"
      by (intro new_edges_source[of e _ ac]) (simp add: build_edges_def edges_build_nodes)
    moreover from d have "\<not> has_node (build_nodes ac) r"
      by (simp add: build_topology_Some[OF Some] has_node_def)
    ultimately show ?thesis by auto
  qed
qed

theorem dangling_reference_no_edge_witness:
  "\<not> has_node (build_topology dangling_device) 9
   \<and> map (\<lambda>e. (source_id e, target_id e)) (edges (build_topology dangling_device)) = [(4, 6)]
   \<and> 9 \<notin> source_id ` set (edges (build_topology dangling_device))"
proof -
  have d: "\<not> has_node (build_topology dangling_device) 9"
    by code_simp
  have e: "map (\<lambda>e. (source_id e, target_id e)) (edges (build_topology dangling_device)) = [(4, 6)]"
    by code_simp
  from dangling_reference_no_edge[of _ 9 _ dangling_device] d
  have "\<forall>e \<in> set (edges (build_topology dangling_device)). source_id e \<noteq> 9"
    by blast
  then have "9 \<notin> source_id ` set (edges (build_topology dangling_device))"
    by auto
  with d e show ?thesis
    by simp
qed

text \<open>
  Claim C10. The three loops over a scalar reference (output terminals, feature units,
  clock multipliers) never append an edge whose source is 0, whether or not a node 0
  exists. The five loops over a list-valued reference (mixer, selector, processing and
  extension units, clock selectors) have no such guard: when a node 0 exists, a 0 in the
  list gives the edge from 0 to the entity.
\<close>

theorem zero_guard_scalar_only:
  "(\<forall>e \<in> set (output_terminal_edges graph ac @ feature_unit_edges graph ac
                 @ clock_multiplier_edges graph ac). source_id e \<noteq> 0)
   \<and> (has_node graph 0 \<longrightarrow>
        (\<forall>u \<in> set (mixer_units ac). 0 \<in> set (mu_source_ids u) \<longrightarrow>
            signal_edge graph 0 (mu_unit_id u) \<in> set (mixer_unit_edges graph ac))
      \<and> (\<forall>u \<in> set (selector_units ac). 0 \<in> set (su_source_ids u) \<longrightarrow>
            signal_edge graph 0 (su_unit_id u) \<in> set (selector_unit_edges graph ac))
      \<and> (\<forall>u \<in> set (processing_units ac). 0 \<in> set (pu_source_ids u) \<longrightarrow>
            signal_edge graph 0 (pu_unit_id u) \<in> set (processing_unit_edges graph ac))
      \<and> (\<forall>u \<in> set (extension_units ac). 0 \<in> set (xu_source_ids u) \<longrightarrow>
            signal_edge graph 0 (xu_unit_id u) \<in> set (extension_unit_edges graph ac))
      \<and> (\<forall>c \<in> set (clock_selectors ac). 0 \<in> set (csel_clock_pin_ids c) \<longrightarrow>
            clock_edge 0 (csel_clock_id c) \<in> set (clock_selector_edges graph ac)))"
proof (intro conjI impI ballI)
  fix e assume "e \<in> set (output_terminal_edges graph ac @ feature_unit_edges graph ac
                 @ clock_multiplier_edges graph ac)"
  then show "source_id e \<noteq> 0"
    by (auto simp: output_terminal_edges_def feature_unit_edges_def
        clock_multiplier_edges_def clock_edge_def dest: scalar_edges_source split: if_splits)
qed (auto simp: mixer_unit_edges_def selector_unit_edges_def processing_unit_edges_def
       extension_unit_edges_def clock_selector_edges_def list_edges_def)

theorem zero_guard_scalar_only_witness:
  "has_node (build_nodes zero_id_ac) 0
   \<and> output_terminal_edges (build_nodes zero_id_ac) zero_id_ac = []
   \<and> mixer_unit_edges (build_nodes zero_id_ac) zero_id_ac
       = [signal_edge (build_nodes zero_id_ac) 0 3]"
proof -
  have h: "has_node (build_nodes zero_id_ac) 0"
    by code_simp
  have o: "output_terminal_edges (build_nodes zero_id_ac) zero_id_ac = []"
    by code_simp
  have u: "new_MixerUnit\<lparr>mu_unit_id := 3, mu_source_ids := [0]\<rparr> \<in> set (mixer_units zero_id_ac)"
    by (simp add: zero_id_ac_def new_AudioControlInterface_def)
  have l: "length (mixer_unit_edges (build_nodes zero_id_ac) zero_id_ac) = 1"
    by code_simp
  from zero_guard_scalar_only[of "build_nodes zero_id_ac" zero_id_ac] h u
  have "signal_edge (build_nodes zero_id_ac) 0 3
          \<in> set (mixer_unit_edges (build_nodes zero_id_ac) zero_id_ac)"
    by (auto simp: new_MixerUnit_def)
  with l have "mixer_unit_edges (build_nodes zero_id_ac) zero_id_ac
       = [signal_edge (build_nodes zero_id_ac) 0 3]"
    by (cases "mixer_unit_edges (build_nodes zero_id_ac) zero_id_ac") auto
  with h o show ?thesis by simp
qed

text \<open>
  Claim C7. No produced signal path repeats a node identifier: the id lists that
  \<open>_trace_back\<close> returns from any node of any graph are distinct, and so are the ids
  of the nodes of every signal path of a built topology.
\<close>

theorem signal_paths_no_repeated_node:
  "(\<forall>ids \<in> set (trace_back graph nid [] {}). distinct ids)
   \<and> (\<forall>sp \<in> set (signal_paths (build_topology dev)). distinct (map node_id (path_nodes sp)))"
proof (intro conjI ballI)
  fix ids assume "ids \<in> set (trace_back graph nid [] {})"
  then show "distinct ids" by (rule trace_back_distinct)
next
  fix sp assume sp: "sp \<in> set (signal_paths (build_topology dev))"
  show "distinct (map node_id (path_nodes sp))"
  proof (cases "audio_control dev")
    case None
    with sp show ?thesis by (simp add: build_topology_None new_TopologyGraph_def)
  next
    case (Some ac)
    have "nodes_keyed (build_edges (build_nodes ac) ac)"
      by (intro nodes_keyed_build_edges nodes_keyed_build_nodes)
    moreover from sp have "sp \<in> set (find_signal_paths (build_edges (build_nodes ac) ac))"
      by (simp add: build_topology_Some[OF Some])
    ultimately show ?thesis by (rule find_signal_paths_distinct)
  qed
qed

theorem signal_paths_no_repeated_node_witness:
  "map (map node_id \<circ> path_nodes) (signal_paths (build_topology mixer_loop_device)) = [[1, 3, 6]]
   \<and> distinct (map node_id (path_nodes (hd (signal_paths (build_topology mixer_loop_device)))))
   \<and> trace_back (build_topology mixer_loop_device) 6 [] {} = [[1, 3, 6]]
   \<and> distinct (hd (trace_back (build_topology mixer_loop_device) 6 [] {}))"
proof -
  have a: "map (map node_id \<circ> path_nodes) (signal_paths (build_topology mixer_loop_device))
             = [[1, 3, 6]]"
    by code_simp
  have b: "trace_back (build_topology mixer_loop_device) 6 [] {} = [[1, 3, 6]]"
    by code_simp
  from a have "signal_paths (build_topology mixer_loop_device) \<noteq> []"
    by auto
  then have c: "hd (signal_paths (build_topology mixer_loop_device))
                  \<in> set (signal_paths (build_topology mixer_loop_device))"
    by simp
  from b have d: "hd (trace_back (build_topology mixer_loop_device) 6 [] {})
                  \<in> set (trace_back (build_topology mixer_loop_device) 6 [] {})"
    by simp
  from signal_paths_no_repeated_node[of "build_topology mixer_loop_device" 6 mixer_loop_device]
    a b c d show ?thesis
    by blast
qed

text \<open>
  Claim C8. The backward trace ends on every graph, cyclic or not. \<open>trace_back\<close> is
  a total function (its recursion decreases the number of node ids outside \<open>visited\<close>),
  and the depth of the recursion is bounded: a trace that is allowed more nested calls
  than there are node ids outside \<open>visited\<close> never runs into the bound and returns
  the paths of \<open>trace_back\<close>. A node that is already on the path under construction
  contributes no path, and every produced path extends the path under construction by
  distinct nodes that were not on it, so none goes round a cycle.
\<close>

theorem trace_back_cycle_safe:
  "(nid \<in> visited \<longrightarrow> trace_back graph nid current_path visited = [])
   \<and> (card (fst ` set (nodes graph) - visited) < depth \<longrightarrow>
        trace_back_depth depth graph nid current_path visited
          = Some (trace_back graph nid current_path visited))
   \<and> (\<forall>p \<in> set (trace_back graph nid current_path visited).
        \<exists>new. p = new @ current_path \<and> distinct new \<and> set new \<inter> visited = {})"
  by (auto simp: trace_back.simps[of graph nid] trace_back_depth_enough
      dest: trace_back_extends)

theorem trace_back_cycle_safe_witness:
  "trace_back (build_topology mixer_loop_device) 3 [4, 3, 6] {6, 3, 4} = []
   \<and> trace_back_depth 5 (build_topology mixer_loop_device) 6 [] {} = Some [[1, 3, 6]]
   \<and> trace_back_depth 5 (build_topology mutual_units_device) 6 [] {} = Some []
   \<and> signal_paths (build_topology mutual_units_device) = []"
proof -
  have v: "(3::int) \<in> {6, 3, 4}"
    by simp
  have c1: "card (fst ` set (nodes (build_topology mixer_loop_device)) - {}) < 5"
    by code_simp
  have c2: "card (fst ` set (nodes (build_topology mutual_units_device)) - {}) < 5"
    by code_simp
  have t1: "trace_back (build_topology mixer_loop_device) 6 [] {} = [[1, 3, 6]]"
    by code_simp
  have t2: "trace_back (build_topology mutual_units_device) 6 [] {} = []"
    by code_simp
  have sp: "signal_paths (build_topology mutual_units_device) = []"
    by code_simp
  from trace_back_cycle_safe[of 3 "{6, 3, 4}" "build_topology mixer_loop_device" "[4, 3, 6]"] v
  have "trace_back (build_topology mixer_loop_device) 3 [4, 3, 6] {6, 3, 4} = []"
    by blast
  moreover from trace_back_cycle_safe[of 6 "{}" "build_topology mixer_loop_device" "[]" 5] c1 t1
  have "trace_back_depth 5 (build_topology mixer_loop_device) 6 [] {} = Some [[1, 3, 6]]"
    by simp
  moreover from trace_back_cycle_safe[of 6 "{}" "build_topology mutual_units_device" "[]" 5] c2 t2
  have "trace_back_depth 5 (build_topology mutual_units_device) 6 [] {} = Some []"
    by simp
  ultimately show ?thesis using sp by simp
qed

lemma list2: "map f xs = [a, b] \<Longrightarrow> \<exists>x y. xs = [x, y] \<and> f x = a \<and> f y = b"
  by (cases xs; cases "tl xs"; auto)

lemma list1: "map f xs = [a] \<Longrightarrow> \<exists>x. xs = [x] \<and> f x = a"
  by (cases xs) auto

lemma list4: "map f xs = [a, b, c, d] \<Longrightarrow>
   \<exists>x y z w. xs = [x, y, z, w] \<and> f x = a \<and> f y = b \<and> f z = c \<and> f w = d"
  by (cases xs; cases "tl xs"; cases "tl (tl xs)"; cases "tl (tl (tl xs))"; auto)

text \<open>
  Claim C4. An audio-control interface with input terminals 1 and 2, output terminals
  6 (source 5) and 7 (source 4), feature units 4 (source 2) and 5 (source 1), in this
  order, and no other entity gives a graph of 6 nodes and 4 edges with exactly two
  signal paths, 1, 5, 6 and 2, 4, 7, whatever the other fields of the entities hold.
\<close>

theorem headset_scenario:
  assumes ac: "audio_control dev = Some ac"
    and its: "map it_terminal_id (input_terminals ac) = [1, 2]"
    and ots: "map (\<lambda>t. (ot_terminal_id t, ot_source_id t)) (output_terminals ac) = [(6, 5), (7, 4)]"
    and fus: "map (\<lambda>u. (fu_unit_id u, fu_source_id u)) (feature_units ac) = [(4, 2), (5, 1)]"
    and rest: "mixer_units ac = []" "selector_units ac = []" "processing_units ac = []"
      "extension_units ac = []" "clock_sources ac = []" "clock_selectors ac = []"
      "clock_multipliers ac = []"
  shows "length (nodes (build_topology dev)) = 6 \<and> length (edges (build_topology dev)) = 4 \<and>
     map (map node_id \<circ> path_nodes) (signal_paths (build_topology dev)) = [[1, 5, 6], [2, 4, 7]]"
proof -
  from list2[OF its] obtain i1 i2 where i: "input_terminals ac = [i1, i2]"
    "it_terminal_id i1 = 1" "it_terminal_id i2 = 2" by blast
  from list2[OF ots] obtain o1 o2 where o: "output_terminals ac = [o1, o2]"
    "ot_terminal_id o1 = 6" "ot_source_id o1 = 5" "ot_terminal_id o2 = 7" "ot_source_id o2 = 4" by auto
  from list2[OF fus] obtain f1 f2 where f: "feature_units ac = [f1, f2]"
    "fu_unit_id f1 = 4" "fu_source_id f1 = 2" "fu_unit_id f2 = 5" "fu_source_id f2 = 1" by auto
  define g where "g = build_nodes ac"
  have n: "nodes g = [(1, \<lparr>node_id = 1, node_type = INPUT_TERMINAL, channels = it_nr_channels i1, is_usb_streaming = it_is_usb_streaming i1\<rparr>),
     (2, \<lparr>node_id = 2, node_type = INPUT_TERMINAL, channels = it_nr_channels i2, is_usb_streaming = it_is_usb_streaming i2\<rparr>),
     (6, \<lparr>node_id = 6, node_type = OUTPUT_TERMINAL, channels = 0, is_usb_streaming = ot_is_usb_streaming o1\<rparr>),
     (7, \<lparr>node_id = 7, node_type = OUTPUT_TERMINAL, channels = 0, is_usb_streaming = ot_is_usb_streaming o2\<rparr>),
     (4, \<lparr>node_id = 4, node_type = FEATURE_UNIT, channels = fu_nr_channels f1, is_usb_streaming = False\<rparr>),
     (5, \<lparr>node_id = 5, node_type = FEATURE_UNIT, channels = fu_nr_channels f2, is_usb_streaming = False\<rparr>)]"
    unfolding g_def build_nodes_def add_clock_entities_def add_extension_units_def
    add_processing_units_def add_selector_units_def add_mixer_units_def
    add_feature_units_def add_output_terminals_def add_input_terminals_def
    by (simp add: i o f rest add_input_terminal_def add_output_terminal_def add_unit_node_def
        new_TopologyGraph_def Let_def)
  have go: "g_output_terminals g =
     [\<lparr>node_id = 6, node_type = OUTPUT_TERMINAL, channels = 0, is_usb_streaming = ot_is_usb_streaming o1\<rparr>,
      \<lparr>node_id = 7, node_type = OUTPUT_TERMINAL, channels = 0, is_usb_streaming = ot_is_usb_streaming o2\<rparr>]"
    unfolding g_def build_nodes_def add_clock_entities_def add_extension_units_def
    add_processing_units_def add_selector_units_def add_mixer_units_def
    add_feature_units_def add_output_terminals_def add_input_terminals_def
    by (simp add: i o f rest add_input_terminal_def add_output_terminal_def add_unit_node_def
        new_TopologyGraph_def Let_def)
  have ge: "edges g = []"
    unfolding g_def build_nodes_def add_clock_entities_def add_extension_units_def
    add_processing_units_def add_selector_units_def add_mixer_units_def
    add_feature_units_def add_output_terminals_def add_input_terminals_def
    by (simp add: i o f rest add_input_terminal_def add_output_terminal_def add_unit_node_def
        new_TopologyGraph_def Let_def)
  define h where "h = build_edges g ac"
  have hn: "nodes h = nodes g" and ho: "g_output_terminals h = g_output_terminals g"
    by (simp_all add: h_def build_edges_def)
  have he: "map (\<lambda>e. (source_id e, target_id e, is_clock e)) (edges h)
      = [(5, 6, False), (4, 7, False), (2, 4, False), (1, 5, False)]"
    by (simp add: h_def build_edges_def ge output_terminal_edges_def feature_unit_edges_def
        mixer_unit_edges_def selector_unit_edges_def processing_unit_edges_def
        extension_unit_edges_def clock_selector_edges_def clock_multiplier_edges_def
        scalar_edges_def signal_edge_def has_node_def n i o f rest)
  from list4[OF he] obtain e1 e2 e3 e4 where e: "edges h = [e1, e2, e3, e4]"
    "source_id e1 = 5" "target_id e1 = 6" "\<not> is_clock e1"
    "source_id e2 = 4" "target_id e2 = 7" "\<not> is_clock e2"
    "source_id e3 = 2" "target_id e3 = 4" "\<not> is_clock e3"
    "source_id e4 = 1" "target_id e4 = 5" "\<not> is_clock e4" by auto
  have s6: "map node_id (get_sources h 6) = [5]" and s7: "map node_id (get_sources h 7) = [4]"
    and s5: "map node_id (get_sources h 5) = [1]" and s4: "map node_id (get_sources h 4) = [2]"
    by (simp_all add: get_sources_def e hn n)
  have t1: "trace_back h 1 p v = (if 1 \<in> v then [] else [1 # p])" for p v
    by (simp add: trace_back.simps[of h 1] hn n)
  have t2: "trace_back h 2 p v = (if 2 \<in> v then [] else [2 # p])" for p v
    by (simp add: trace_back.simps[of h 2] hn n)
  have t5: "trace_back h 5 [6] {6} = [[1, 5, 6]]"
    using list1[OF s5] by (auto simp add: trace_back.simps[of h 5] hn n t1)
  have t4: "trace_back h 4 [7] {7} = [[2, 4, 7]]"
    using list1[OF s4] by (auto simp add: trace_back.simps[of h 4] hn n t2)
  have t6: "trace_back h 6 [] {} = [[1, 5, 6]]"
    using list1[OF s6] by (auto simp add: trace_back.simps[of h 6] hn n t5)
  have t7: "trace_back h 7 [] {} = [[2, 4, 7]]"
    using list1[OF s7] by (auto simp add: trace_back.simps[of h 7] hn n t4)
  have sp: "map (map node_id \<circ> path_nodes) (find_signal_paths h) = [[1, 5, 6], [2, 4, 7]]"
    by (simp add: find_signal_paths_def ho go t6 t7 path_of_ids_def hn n)
  have bt: "build_topology dev = h\<lparr>signal_paths := find_signal_paths h\<rparr>"
    by (simp add: build_topology_def ac h_def g_def Let_def)
  show ?thesis
    by (simp add: bt sp hn n e)
qed

theorem headset_scenario_witness:
  "length (nodes (build_topology headset_device)) = 6
   \<and> length (edges (build_topology headset_device)) = 4
   \<and> map (map node_id \<circ> path_nodes) (signal_paths (build_topology headset_device))
       = [[1, 5, 6], [2, 4, 7]]"
  by (rule headset_scenario[of headset_device headset_ac])
     (simp_all add: headset_device_def headset_ac_def new_USBAudioDevice_def
        new_AudioControlInterface_def new_InputTerminal_def new_OutputTerminal_def
        new_FeatureUnit_def)


section \<open>Properties of the parser\<close>

subsection \<open>Version decode\<close>




















subsection \<open>Indentation boundaries\<close>











subsection \<open>Alternate settings\<close>

lemma build_alternate_settings_keys:
  "configuration dev = Some config \<Longrightarrow>
     alt_keys (build_alternate_settings dev) = streaming_keys (build_alternate_settings dev)
     \<and> map streaming_interface (alternate_settings (build_alternate_settings dev))
         = map Some (streaming_interfaces (build_alternate_settings dev))
     \<and> map alt_format (alternate_settings (build_alternate_settings dev))
         = map asi_format (streaming_interfaces (build_alternate_settings dev))
     \<and> map alt_endpoint (alternate_settings (build_alternate_settings dev))
         = map (find_endpoint config) (streaming_interfaces dev)"
  by (simp add: build_alternate_settings_def alt_keys_def streaming_keys_def
        alternate_setting_of_def attach_endpoint_def comp_def split: option.splits)

lemma build_alternate_settings_configuration:
  "configuration (build_alternate_settings dev) = configuration dev"
  by (simp add: build_alternate_settings_def split: option.splits)

lemma build_alternate_settings_None:
  "configuration dev = None \<Longrightarrow> alternate_settings (build_alternate_settings dev) = []"
  by (simp add: build_alternate_settings_def)

text \<open>
  Claim C3, as amended. When \<open>parse\<close> returns a device that has a configuration,
  its list of alternate settings has one entry per streaming interface, in the order of
  \<open>device.streaming_interfaces\<close> (the order in which the AS General descriptors were
  parsed), each with the interface number, the alternate setting and the format of its
  streaming interface; so the list is sorted by (interface number, alternate setting)
  exactly when the streaming interfaces are. Without a configuration the list is empty.
  The format and the endpoint of an entry are optional values.
\<close>

theorem alternate_settings_in_parse_order:
  "case parse ls of
     Inl e \<Rightarrow> True
   | Inr dev \<Rightarrow>
       (case configuration dev of
          None \<Rightarrow> alternate_settings dev = []
        | Some config \<Rightarrow>
            alt_keys dev = streaming_keys dev
            \<and> map streaming_interface (alternate_settings dev)
                = map Some (streaming_interfaces dev)
            \<and> map alt_format (alternate_settings dev) = map asi_format (streaming_interfaces dev)
            \<and> keys_sorted (alt_keys dev) = keys_sorted (streaming_keys dev))"
proof (cases "parse ls")
  case (Inl e)
  then show ?thesis by simp
next
  case (Inr dev)
  then obtain dev0 where d: "dev = build_alternate_settings dev0"
    by (auto simp: parse_def split: sum.splits)
  show ?thesis
  proof (cases "configuration dev0")
    case None
    with Inr d show ?thesis
      by (simp add: build_alternate_settings_configuration build_alternate_settings_None)
  next
    case (Some config)
    from build_alternate_settings_keys[OF Some] Inr d Some show ?thesis
      by (simp add: build_alternate_settings_configuration)
  qed
qed

lemma interface_2_before_1_parsed:
  "case parse_lsusb interface_2_before_1 of
     Inl e \<Rightarrow> False
   | Inr dev \<Rightarrow> configuration dev \<noteq> None \<and> streaming_keys dev = [(2, 1), (1, 1)]
               \<and> alt_keys dev = [(2, 1), (1, 1)]"
  by code_simp

text \<open>
  Claim C3 as stated fails: the parser does not sort. A text that lists streaming
  interface 2 before streaming interface 1 gives the keys (2, 1), (1, 1).
\<close>

theorem alternate_settings_not_sorted:
  "case parse_lsusb interface_2_before_1 of
     Inl e \<Rightarrow> False
   | Inr dev \<Rightarrow> alt_keys dev = [(2, 1), (1, 1)] \<and> \<not> keys_sorted (alt_keys dev)"
  using interface_2_before_1_parsed by (auto split: sum.splits)

theorem alternate_settings_in_parse_order_witness:
  "case parse_lsusb interface_2_before_1 of
     Inl e \<Rightarrow> False
   | Inr dev \<Rightarrow> streaming_keys dev = [(2, 1), (1, 1)] \<and> alt_keys dev = streaming_keys dev"
  using interface_2_before_1_parsed
    alternate_settings_in_parse_order[of "tokenize interface_2_before_1"]
  by (auto simp: parse_lsusb_def split: sum.splits option.splits)

subsection \<open>Configurations\<close>

text \<open>
  Claim C1. The device model has one optional configuration, and \<open>parse\<close> assigns
  to it at every Configuration Descriptor section: of a text with the configurations 1
  and 2 only configuration 2 is in the parsed model. The model has no list of
  configurations and no operation that selects one.
\<close>

theorem only_last_configuration_retained:
  "case parse_lsusb two_configurations of
     Inl e \<Rightarrow> False
   | Inr dev \<Rightarrow> map_option config_value (configuration dev) = Some 2"
  by code_simp

subsection \<open>Errors\<close>

text \<open>
  Claim C2. A device descriptor whose \<open>bcdUSB\<close> line carries no value makes
  \<open>parse\<close> raise \<open>IndexError\<close>: \<open>_parse_field\<close> returns the empty string and
  \<open>split()[0]\<close> of it does not exist.
\<close>

theorem bare_bcdusb_raises: "parse_lsusb bcdusb_without_value = Inl IndexError"
  by code_simp

text \<open>
  That line is the only way to an exception: a text none of whose lines is a
  \<open>bcdUSB\<close> line without a value is parsed into a device.
\<close>

lemma device_line_error:
  "device_line text desc = Inl e \<longleftrightarrow>
     startswith text ''bcdUSB'' \<and> split (parse_field text ''bcdUSB'') = []"
  by (cases e) (auto simp: device_line_def Let_def split: if_splits list.splits)

lemma device_loop_returns:
  "\<not> list_ex bare_bcdusb ls \<Longrightarrow> \<exists>desc' ls'. device_loop start_indent desc ls = Inr (desc', ls')"
proof (induction ls arbitrary: desc)
  case Nil
  show ?case by simp
next
  case (Cons l ls)
  from Cons.prems have l: "\<not> bare_bcdusb l" and ls: "\<not> list_ex bare_bcdusb ls"
    by simp_all
  show ?case
  proof (cases "device_line (content l) desc")
    case (Inl e)
    with l show ?thesis by (simp add: device_line_error bare_bcdusb_def)
  next
    case (Inr st)
    with Cons.IH[OF ls] show ?thesis
      by (cases st) auto
  qed
qed

lemma device_loop_suffix:
  "device_loop start_indent desc ls = Inr (desc', ls') \<Longrightarrow> set ls' \<subseteq> set ls"
  by (induction ls arbitrary: desc)
     (auto split: if_splits sum.splits step.splits)

lemma parse_loop_returns:
  "\<not> list_ex bare_bcdusb ls \<Longrightarrow> \<exists>dev'. parse_loop dev ls = Inr dev'"
proof (induction dev ls rule: parse_loop.induct)
  case (1 dev)
  show ?case by simp
next
  case (2 dev l ls)
  from "2.prems" have ls: "\<not> list_ex bare_bcdusb ls"
    by simp
  consider (bus) "startswith (content l) ''Bus ''"
    | (dd) "\<not> startswith (content l) ''Bus ''" "startswith (content l) ''Device Descriptor:''"
    | (cd) "\<not> startswith (content l) ''Bus ''" "\<not> startswith (content l) ''Device Descriptor:''"
           "startswith (content l) ''Configuration Descriptor:''"
    | (other) "\<not> startswith (content l) ''Bus ''" "\<not> startswith (content l) ''Device Descriptor:''"
           "\<not> startswith (content l) ''Configuration Descriptor:''"
    by blast
  then show ?case
  proof cases
    case bus
    with "2.IH"(1) ls show ?thesis by simp
  next
    case dd
    from device_loop_returns[OF ls] obtain desc ls' where
      r: "parse_device_descriptor l ls = Inr (desc, ls')"
      unfolding parse_device_descriptor_def by blast
    then have "set ls' \<subseteq> set ls"
      unfolding parse_device_descriptor_def by (rule device_loop_suffix)
    with ls have "\<not> list_ex bare_bcdusb ls'"
      by (auto simp: list_ex_iff)
    with "2.IH"(2)[OF dd r refl] dd r show ?thesis by simp
  next
    case cd
    obtain config d ls' where r: "parse_configuration_descriptor dev l ls = ((config, d), ls')"
      by (cases "parse_configuration_descriptor dev l ls") auto
    then have "ls' = dropWhile (\<lambda>x. indent l < indent x) ls"
      using parse_configuration_descriptor_rest[of dev l ls] by simp
    with ls have "\<not> list_ex bare_bcdusb ls'"
      by (auto simp: list_ex_iff dest: set_dropWhileD)
    with "2.IH"(3)[OF cd r[symmetric] refl] cd r show ?thesis by simp
  next
    case other
    with "2.IH"(4) ls show ?thesis by simp
  qed
qed

lemma parse_returns_unless_bare_bcdusb:
  "\<not> list_ex bare_bcdusb ls \<Longrightarrow> \<exists>dev. parse ls = Inr dev"
  using parse_loop_returns[of ls new_USBAudioDevice] by (auto simp: parse_def)

end
